theory Spec2Isabelle
  imports Complex_Main
begin

section \<open>Stack Dash: data model\<close>

text \<open>
  The embedding follows \<^verbatim>\<open>games/stack_dash/player.py\<close>, \<^verbatim>\<open>level.py\<close> and
  \<^verbatim>\<open>game.py\<close>. Python numbers that may be floats (positions, velocities) are
  idealised as exact reals; counters that stay Python ints are \<open>int\<close>. Attributes
  that are assigned once in a constructor and never reassigned (sizes, speed, gravity,
  the tile cap) are constants. Fields that only feed drawing (colours, sprites,
  animation frames, pulse sizes, facing direction) are left out: no simulation step
  reads them.
\<close>

subsection \<open>config.py\<close>

definition SCREEN_WIDTH :: int where
  "SCREEN_WIDTH = 800"

definition SCREEN_HEIGHT :: int where
  "SCREEN_HEIGHT = 600"

subsection \<open>pygame.Rect\<close>

text \<open>
  Modelled from the spec: \<^verbatim>\<open>pygame.Rect\<close> is a type of the external pygame library,
  absent from the sources. The spec calls it an axis-aligned bounding box with an
  intersection test. A Rect stores four integers; float arguments are converted like
  Python's \<^verbatim>\<open>int()\<close>, truncating toward zero. \<^verbatim>\<open>colliderect\<close> is pygame 2's
  test: rectangles of zero width or height collide with nothing, and edges that only
  touch do not collide.
\<close>

record Rect =
  rect_x :: int
  rect_y :: int
  rect_w :: int
  rect_h :: int

definition py_int :: "real \<Rightarrow> int" where
  "py_int r = (if 0 \<le> r then \<lfloor>r\<rfloor> else \<lceil>r\<rceil>)"

definition mk_Rect :: "real \<Rightarrow> real \<Rightarrow> real \<Rightarrow> real \<Rightarrow> Rect" where
  "mk_Rect a b c d = \<lparr>rect_x = py_int a, rect_y = py_int b, rect_w = py_int c, rect_h = py_int d\<rparr>"

definition colliderect :: "Rect \<Rightarrow> Rect \<Rightarrow> bool" where
  "colliderect A B =
     (rect_w A \<noteq> 0 \<and> rect_h A \<noteq> 0 \<and> rect_w B \<noteq> 0 \<and> rect_h B \<noteq> 0 \<and>
      min (rect_x A) (rect_x A + rect_w A) < max (rect_x B) (rect_x B + rect_w B) \<and>
      min (rect_y A) (rect_y A + rect_h A) < max (rect_y B) (rect_y B + rect_h B) \<and>
      max (rect_x A) (rect_x A + rect_w A) > min (rect_x B) (rect_x B + rect_w B) \<and>
      max (rect_y A) (rect_y A + rect_h A) > min (rect_y B) (rect_y B + rect_h B))"

subsection \<open>level.py: Platform, Tile, PowerUp, FinishLine\<close>

record Platform =
  plat_x :: real
  plat_y :: real
  plat_width :: real
  plat_height :: real

definition platform_get_rect :: "Platform \<Rightarrow> Rect" where
  "platform_get_rect p = mk_Rect (plat_x p) (plat_y p) (plat_width p) (plat_height p)"

record Tile =
  tile_x :: real
  tile_y :: real
  tile_collected :: bool
  hover_offset :: real
  hover_speed :: real
  hover_range :: real
  original_y :: real

definition tile_width :: int where
  "tile_width = 30"

definition tile_height :: int where
  "tile_height = 10"

text \<open>Tile.update: the hover animation moves the tile, so it is part of the simulation.\<close>

definition Tile_update :: "Tile \<Rightarrow> Tile" where
  "Tile_update t =
     (let off = hover_offset t + hover_speed t
      in t\<lparr>hover_offset := off, tile_y := original_y t + sin off * hover_range t\<rparr>)"

definition tile_get_rect :: "Tile \<Rightarrow> Rect" where
  "tile_get_rect t =
     mk_Rect (tile_x t - of_int (tile_width div 2)) (tile_y t - of_int (tile_height div 2))
       (of_int tile_width) (of_int tile_height)"

datatype powerup_type = Speed | Jump | Magnet

record PowerUp =
  powerup_x :: real
  powerup_y :: real
  powerup_kind :: powerup_type
  powerup_collected :: bool

definition powerup_radius :: int where
  "powerup_radius = 15"

definition powerup_get_rect :: "PowerUp \<Rightarrow> Rect" where
  "powerup_get_rect u =
     mk_Rect (powerup_x u - of_int powerup_radius) (powerup_y u - of_int powerup_radius)
       (of_int (powerup_radius * 2)) (of_int (powerup_radius * 2))"

record FinishLine =
  finish_x :: real
  finish_y :: real
  finish_height :: real

definition finish_width :: int where
  "finish_width = 20"

definition finish_get_rect :: "FinishLine \<Rightarrow> Rect" where
  "finish_get_rect f = mk_Rect (finish_x f) (finish_y f) (of_int finish_width) (finish_height f)"

subsection \<open>player.py: Player\<close>

record Player =
  player_x :: real
  player_y :: real
  vel_x :: real
  vel_y :: real
  on_ground :: bool
  jump_safety :: int
  tile_count :: int
  speed_boost :: bool
  speed_boost_timer :: int
  jump_boost :: bool
  jump_boost_timer :: int
  tile_magnet :: bool
  tile_magnet_timer :: int

definition player_width :: int where
  "player_width = 40"

definition player_height :: int where
  "player_height = 60"

definition speed :: real where
  "speed = 5"

definition jump_power :: real where
  "jump_power = - 15"

definition gravity :: real where
  "gravity = 0.8"

definition max_tiles :: int where
  "max_tiles = 20"

text \<open>Player.__init__(x, y).\<close>

definition Player_init :: "real \<Rightarrow> real \<Rightarrow> Player" where
  "Player_init a b =
     \<lparr>player_x = a, player_y = b, vel_x = 0, vel_y = 0, on_ground = True, jump_safety = 0,
      tile_count = 0, speed_boost = False, speed_boost_timer = 0, jump_boost = False,
      jump_boost_timer = 0, tile_magnet = False, tile_magnet_timer = 0\<rparr>"

text \<open>Player.jump: returns whether the jump happened, and the player.\<close>

definition jump :: "Player \<Rightarrow> bool \<times> Player" where
  "jump pl =
     (if on_ground pl then
        (let jump_strength = (if jump_boost pl then jump_power * 1.3 else jump_power)
         in (True, pl\<lparr>vel_y := jump_strength, on_ground := False,
                       player_y := player_y pl - 2, jump_safety := 10\<rparr>))
      else (False, pl))"

text \<open>
  The snapshot of \<^verbatim>\<open>pygame.key.get_pressed()\<close> that Player.update reads: one flag
  per key it looks at.
\<close>

record Keys =
  K_LEFT :: bool
  K_a :: bool
  K_RIGHT :: bool
  K_d :: bool
  K_SPACE :: bool
  K_UP :: bool
  K_w :: bool

definition base_speed :: "Player \<Rightarrow> real" where
  "base_speed pl =
     (let b = speed * (1 - of_int (tile_count pl) / of_int (max_tiles * 2))
      in if speed_boost pl then b * 1.5 else b)"

text \<open>
  Player.update, in the order of the source. Lines 132-144: the speed for this frame
  and the horizontal velocity from the keys (right wins when both directions are held).
\<close>

definition move_intent :: "Keys \<Rightarrow> Player \<Rightarrow> Player" where
  "move_intent keys pl =
     (let bs = base_speed pl;
          pl1 = pl\<lparr>vel_x := 0\<rparr>;
          pl2 = (if K_LEFT keys \<or> K_a keys then pl1\<lparr>vel_x := - bs\<rparr> else pl1)
      in if K_RIGHT keys \<or> K_d keys then pl2\<lparr>vel_x := bs\<rparr> else pl2)"

text \<open>Lines 146-148: gravity when airborne.\<close>

definition apply_gravity :: "Player \<Rightarrow> Player" where
  "apply_gravity pl = (if \<not> on_ground pl then pl\<lparr>vel_y := vel_y pl + gravity\<rparr> else pl)"

text \<open>Lines 150-152: a held jump key.\<close>

definition held_jump :: "Keys \<Rightarrow> Player \<Rightarrow> Player" where
  "held_jump keys pl =
     (if (K_SPACE keys \<or> K_UP keys \<or> K_w keys) \<and> on_ground pl then snd (jump pl) else pl)"

text \<open>Lines 154-156: position integration.\<close>

definition integrate :: "Player \<Rightarrow> Player" where
  "integrate pl = pl\<lparr>player_x := player_x pl + vel_x pl, player_y := player_y pl + vel_y pl\<rparr>"

text \<open>Lines 158-160: the jump safety counter.\<close>

definition tick_jump_safety :: "Player \<Rightarrow> Player" where
  "tick_jump_safety pl = (if jump_safety pl > 0 then pl\<lparr>jump_safety := jump_safety pl - 1\<rparr> else pl)"

text \<open>Lines 162-176: the power-up timers.\<close>

definition tick_powerups :: "Player \<Rightarrow> Player" where
  "tick_powerups pl =
     (let pl1 = (if speed_boost pl then
                   (let t = speed_boost_timer pl - 1
                    in pl\<lparr>speed_boost_timer := t, speed_boost := \<not> (t \<le> 0)\<rparr>)
                 else pl);
          pl2 = (if jump_boost pl1 then
                   (let t = jump_boost_timer pl1 - 1
                    in pl1\<lparr>jump_boost_timer := t, jump_boost := \<not> (t \<le> 0)\<rparr>)
                 else pl1)
      in if tile_magnet pl2 then
           (let t = tile_magnet_timer pl2 - 1
            in pl2\<lparr>tile_magnet_timer := t, tile_magnet := \<not> (t \<le> 0)\<rparr>)
         else pl2)"

definition Player_update :: "Keys \<Rightarrow> Player \<Rightarrow> Player" where
  "Player_update keys pl =
     tick_powerups (tick_jump_safety (integrate (held_jump keys (apply_gravity (move_intent keys pl)))))"

definition add_tile :: "Player \<Rightarrow> Player" where
  "add_tile pl = (if tile_count pl < max_tiles then pl\<lparr>tile_count := tile_count pl + 1\<rparr> else pl)"

definition remove_tile :: "Player \<Rightarrow> bool \<times> Player" where
  "remove_tile pl =
     (if tile_count pl > 0 then (True, pl\<lparr>tile_count := tile_count pl - 1\<rparr>) else (False, pl))"

definition fall :: "Player \<Rightarrow> Player" where
  "fall pl = pl\<lparr>vel_y := 15\<rparr>"

definition activate_speed_boost :: "Player \<Rightarrow> Player" where
  "activate_speed_boost pl = pl\<lparr>speed_boost := True, speed_boost_timer := 300\<rparr>"

definition activate_jump_boost :: "Player \<Rightarrow> Player" where
  "activate_jump_boost pl = pl\<lparr>jump_boost := True, jump_boost_timer := 300\<rparr>"

definition activate_tile_magnet :: "Player \<Rightarrow> Player" where
  "activate_tile_magnet pl = pl\<lparr>tile_magnet := True, tile_magnet_timer := 300\<rparr>"

definition player_get_rect :: "Player \<Rightarrow> Rect" where
  "player_get_rect pl =
     mk_Rect (player_x pl - of_int (player_width div 2)) (player_y pl - of_int (player_height div 2))
       (of_int player_width) (of_int player_height)"

subsection \<open>level.py: Level\<close>

record Level =
  platforms :: "Platform list"
  tiles :: "Tile list"
  power_ups :: "PowerUp list"
  finish_line :: "FinishLine option"

definition level_width :: int where
  "level_width = 5000"

definition ground_height :: int where
  "ground_height = SCREEN_HEIGHT - 50"

text \<open>The finish line that \<^verbatim>\<open>_generate_level\<close> installs (level.py, lines 337-341).\<close>

definition generated_finish_line :: FinishLine where
  "generated_finish_line =
     \<lparr>finish_x = of_int (level_width - 300), finish_y = of_int (ground_height - 200),
      finish_height = 200\<rparr>"

text \<open>Level.update: tiles hover; power-ups and the finish line only animate.\<close>

definition Level_update :: "Level \<Rightarrow> Level" where
  "Level_update lvl = lvl\<lparr>tiles := map Tile_update (tiles lvl)\<rparr>"

text \<open>
  Level.check_tile_collection: the first uncollected tile whose rectangle collides
  with the player's is flagged and returned.
\<close>

fun collect_first :: "Rect \<Rightarrow> Tile list \<Rightarrow> Tile option \<times> Tile list" where
  "collect_first r [] = (None, [])"
| "collect_first r (t # ts) =
     (if \<not> tile_collected t \<and> colliderect r (tile_get_rect t)
      then (Some (t\<lparr>tile_collected := True\<rparr>), t\<lparr>tile_collected := True\<rparr> # ts)
      else (case collect_first r ts of (res, ts') \<Rightarrow> (res, t # ts')))"

definition check_tile_collection :: "Level \<Rightarrow> Player \<Rightarrow> Tile option \<times> Level" where
  "check_tile_collection lvl pl =
     (case collect_first (player_get_rect pl) (tiles lvl) of
        (res, ts') \<Rightarrow> (res, lvl\<lparr>tiles := ts'\<rparr>))"

fun collect_first_powerup :: "Rect \<Rightarrow> PowerUp list \<Rightarrow> powerup_type option \<times> PowerUp list" where
  "collect_first_powerup r [] = (None, [])"
| "collect_first_powerup r (u # us) =
     (if \<not> powerup_collected u \<and> colliderect r (powerup_get_rect u)
      then (Some (powerup_kind u), u\<lparr>powerup_collected := True\<rparr> # us)
      else (case collect_first_powerup r us of (res, us') \<Rightarrow> (res, u # us')))"

definition check_powerup_collision :: "Level \<Rightarrow> Player \<Rightarrow> powerup_type option \<times> Level" where
  "check_powerup_collision lvl pl =
     (case collect_first_powerup (player_get_rect pl) (power_ups lvl) of
        (res, us') \<Rightarrow> (res, lvl\<lparr>power_ups := us'\<rparr>))"

text \<open>Level.check_gap.\<close>

definition check_gap :: "Level \<Rightarrow> Player \<Rightarrow> bool" where
  "check_gap lvl pl =
     (if jump_safety pl > 0 then False
      else if vel_y pl > 2.0 \<and> \<not> on_ground pl \<and> \<bar>vel_x pl\<bar> > 0.5 then
        (let ray_rect = mk_Rect (player_x pl - 5) (player_y pl) 10 100
         in \<not> list_ex (\<lambda>p. colliderect ray_rect (platform_get_rect p)) (platforms lvl))
      else False)"

text \<open>Level.build_bridge(x, y).\<close>

definition bridge_at :: "real \<Rightarrow> real \<Rightarrow> Platform" where
  "bridge_at a b = \<lparr>plat_x = a - 20, plat_y = b + 20, plat_width = 40, plat_height = 10\<rparr>"

definition build_bridge :: "Level \<Rightarrow> real \<Rightarrow> real \<Rightarrow> Level" where
  "build_bridge lvl a b = lvl\<lparr>platforms := platforms lvl @ [bridge_at a b]\<rparr>"

text \<open>Level.check_finish_line.\<close>

definition check_finish_line :: "Level \<Rightarrow> Player \<Rightarrow> bool" where
  "check_finish_line lvl pl =
     (case finish_line lvl of
        None \<Rightarrow> False
      | Some f \<Rightarrow> colliderect (player_get_rect pl) (finish_get_rect f))"

subsection \<open>level.py: Level.check_collision\<close>

text \<open>
  Pass 1 (lines 487-501): the ground test of one platform, and the loop that returns at
  the first platform passing it. The player is not changed before that return.
\<close>

definition ground_test :: "Player \<Rightarrow> Platform \<Rightarrow> bool" where
  "ground_test pl p =
     (\<bar>player_x pl - (plat_x p + plat_width p / 2)\<bar> < plat_width p / 2 + of_int player_width / 2 \<and>
      player_y pl + of_int player_height / 2 \<ge> plat_y p - 5 \<and>
      player_y pl + of_int player_height / 2 \<le> plat_y p + 10 \<and>
      vel_y pl \<ge> 0)"

definition land_on :: "Player \<Rightarrow> Platform \<Rightarrow> Player" where
  "land_on pl p = pl\<lparr>player_y := plat_y p - of_int player_height / 2, vel_y := 0, on_ground := True\<rparr>"

fun ground_pass :: "Player \<Rightarrow> Platform list \<Rightarrow> (Platform \<times> Player) option" where
  "ground_pass pl [] = None"
| "ground_pass pl (p # ps) =
     (if ground_test pl p then Some (p, land_on pl p) else ground_pass pl ps)"

text \<open>
  Pass 2 (lines 504-536), one platform: \<open>collision_side\<close> is the branch that the
  if/elif chain takes (none when the rectangles do not collide or no branch's velocity
  gate holds), \<open>apply_side\<close> is that branch's body. The rectangle is the one taken
  before pass 1; the overlaps use the player's current position.
\<close>

datatype side = FromBelow | FromLeft | FromRight | FromAbove

definition left_overlap :: "Player \<Rightarrow> Platform \<Rightarrow> real" where
  "left_overlap pl p = (plat_x p + plat_width p) - (player_x pl - of_int player_width / 2)"

definition right_overlap :: "Player \<Rightarrow> Platform \<Rightarrow> real" where
  "right_overlap pl p = (player_x pl + of_int player_width / 2) - plat_x p"

definition top_overlap :: "Player \<Rightarrow> Platform \<Rightarrow> real" where
  "top_overlap pl p = (plat_y p + plat_height p) - (player_y pl - of_int player_height / 2)"

definition bottom_overlap :: "Player \<Rightarrow> Platform \<Rightarrow> real" where
  "bottom_overlap pl p = (player_y pl + of_int player_height / 2) - plat_y p"

definition collision_side :: "Rect \<Rightarrow> Player \<Rightarrow> Platform \<Rightarrow> side option" where
  "collision_side player_rect pl p =
     (if colliderect player_rect (platform_get_rect p) then
        (let min_overlap = min (min (left_overlap pl p) (right_overlap pl p))
                               (min (top_overlap pl p) (bottom_overlap pl p))
         in if min_overlap = bottom_overlap pl p \<and> vel_y pl < 0 then Some FromBelow
            else if min_overlap = left_overlap pl p \<and> vel_x pl > 0 then Some FromLeft
            else if min_overlap = right_overlap pl p \<and> vel_x pl < 0 then Some FromRight
            else if min_overlap = top_overlap pl p \<and> vel_y pl > 0 then Some FromAbove
            else None)
      else None)"

fun apply_side :: "side \<Rightarrow> Player \<Rightarrow> Platform \<Rightarrow> Player" where
  "apply_side FromBelow pl p =
     pl\<lparr>player_y := plat_y p + plat_height p + of_int player_height / 2, vel_y := 0\<rparr>"
| "apply_side FromLeft pl p =
     pl\<lparr>player_x := plat_x p - of_int player_width / 2, vel_x := 0\<rparr>"
| "apply_side FromRight pl p =
     pl\<lparr>player_x := plat_x p + plat_width p + of_int player_width / 2, vel_x := 0\<rparr>"
| "apply_side FromAbove pl p =
     pl\<lparr>player_y := plat_y p - of_int player_height / 2, vel_y := 0, on_ground := True\<rparr>"

definition resolve_platform :: "Rect \<Rightarrow> Player \<Rightarrow> Platform \<Rightarrow> Player" where
  "resolve_platform player_rect pl p =
     (case collision_side player_rect pl p of None \<Rightarrow> pl | Some s \<Rightarrow> apply_side s pl p)"

fun resolve_pass :: "Rect \<Rightarrow> Player \<Rightarrow> Platform list \<Rightarrow> Player" where
  "resolve_pass player_rect pl [] = pl"
| "resolve_pass player_rect pl (p # ps) = resolve_pass player_rect (resolve_platform player_rect pl p) ps"

text \<open>The two passes, before the closing test of lines 538-540.\<close>

definition collision_passes :: "Level \<Rightarrow> Player \<Rightarrow> Player" where
  "collision_passes lvl player =
     (let player_rect = player_get_rect player;
          pl0 = player\<lparr>on_ground := False\<rparr>
      in case ground_pass pl0 (platforms lvl) of
           Some (p, landed) \<Rightarrow> landed
         | None \<Rightarrow> resolve_pass player_rect pl0 (platforms lvl))"

definition check_collision :: "Level \<Rightarrow> Player \<Rightarrow> Player" where
  "check_collision lvl player =
     (let player_rect = player_get_rect player;
          was_on_ground = on_ground player;
          pl0 = player\<lparr>on_ground := False\<rparr>
      in case ground_pass pl0 (platforms lvl) of
           Some (p, landed) \<Rightarrow> landed
         | None \<Rightarrow>
             (let pl1 = resolve_pass player_rect pl0 (platforms lvl)
              in if was_on_ground \<and> \<not> on_ground pl1 \<and> vel_y pl1 = 0
                 then pl1\<lparr>vel_y := 0.1\<rparr> else pl1))"

text \<open>
  Which platforms one call resolved, and on which axis: the platform of pass 1 on the
  vertical axis, or each platform of pass 2 whose branch ran, with that branch's axis.
  This reads the same decisions as \<open>check_collision\<close> and changes nothing.
\<close>

datatype axis = Horizontal | Vertical

fun side_axis :: "side \<Rightarrow> axis" where
  "side_axis FromBelow = Vertical"
| "side_axis FromAbove = Vertical"
| "side_axis FromLeft = Horizontal"
| "side_axis FromRight = Horizontal"

fun resolve_trace :: "Rect \<Rightarrow> Player \<Rightarrow> Platform list \<Rightarrow> (Platform \<times> axis) list" where
  "resolve_trace player_rect pl [] = []"
| "resolve_trace player_rect pl (p # ps) =
     (case collision_side player_rect pl p of
        None \<Rightarrow> []
      | Some s \<Rightarrow> [(p, side_axis s)])
     @ resolve_trace player_rect (resolve_platform player_rect pl p) ps"

definition resolved :: "Level \<Rightarrow> Player \<Rightarrow> (Platform \<times> axis) list" where
  "resolved lvl player =
     (let player_rect = player_get_rect player;
          pl0 = player\<lparr>on_ground := False\<rparr>
      in case ground_pass pl0 (platforms lvl) of
           Some (p, landed) \<Rightarrow> [(p, Vertical)]
         | None \<Rightarrow> resolve_trace player_rect pl0 (platforms lvl))"



subsection \<open>game.py: Game\<close>

datatype game_state = STATE_STARTING | STATE_PLAYING | STATE_PAUSED | STATE_GAME_OVER | STATE_LEVEL_COMPLETE

text \<open>
  The game object. \<open>sound_calls\<close> is the list of \<^verbatim>\<open>sound_manager.play_sound\<close>
  call-outs made so far, oldest first; SoundManager.play_sound catches every exception
  of the mixer, so a call-out never fails.
\<close>

record Game =
  state :: game_state
  state_timer :: int
  score :: int
  timer :: int
  high_score :: int
  camera_x :: real
  player :: Player
  level :: Level
  sound_calls :: "string list"

definition play_sound :: "string \<Rightarrow> Game \<Rightarrow> Game" where
  "play_sound name g = g\<lparr>sound_calls := sound_calls g @ [name]\<rparr>"

text \<open>
  Game.__init__: the level comes from the random generator and the high score from a
  file, so both are parameters.
\<close>

definition Game_init :: "Level \<Rightarrow> int \<Rightarrow> Game" where
  "Game_init lvl hs =
     \<lparr>state = STATE_STARTING, state_timer = 180, score = 0, timer = 0, high_score = hs,
      camera_x = 0, player = Player_init 100 (of_int (SCREEN_HEIGHT - 100)), level = lvl,
      sound_calls = []\<rparr>"

text \<open>Game.update, PLAYING branch, lines 174-184: timer, player, level, collisions.\<close>

definition physics_step :: "Keys \<Rightarrow> Game \<Rightarrow> Game" where
  "physics_step keys g =
     (let g1 = g\<lparr>timer := timer g + 1\<rparr>;
          g2 = g1\<lparr>player := Player_update keys (player g1)\<rparr>;
          g3 = g2\<lparr>level := Level_update (level g2)\<rparr>
      in g3\<lparr>player := check_collision (level g3) (player g3)\<rparr>)"

text \<open>Lines 186-191: tile collection.\<close>

definition collect_step :: "Game \<Rightarrow> Game" where
  "collect_step g =
     (case check_tile_collection (level g) (player g) of
        (None, lvl') \<Rightarrow> g\<lparr>level := lvl'\<rparr>
      | (Some collected_tile, lvl') \<Rightarrow>
          play_sound ''pickup''
            (g\<lparr>level := lvl', player := add_tile (player g), score := score g + 10\<rparr>))"

text \<open>Lines 193-203: gap check, bridge building or fall.\<close>

definition gap_step :: "Game \<Rightarrow> Game" where
  "gap_step g =
     (if vel_y (player g) > 2.0 \<and> check_gap (level g) (player g) then
        (if tile_count (player g) > 0 then
           (let pl' = snd (remove_tile (player g))
            in play_sound ''drop''
                 (g\<lparr>player := pl', level := build_bridge (level g) (player_x pl') (player_y pl')\<rparr>))
         else
           (play_sound ''fall'' (g\<lparr>player := fall (player g)\<rparr>))\<lparr>state := STATE_GAME_OVER\<rparr>)
      else g)"

text \<open>Lines 205-209 and Game._apply_powerup.\<close>

fun apply_powerup :: "powerup_type \<Rightarrow> Player \<Rightarrow> Player" where
  "apply_powerup Speed pl = activate_speed_boost pl"
| "apply_powerup Jump pl = activate_jump_boost pl"
| "apply_powerup Magnet pl = activate_tile_magnet pl"

definition powerup_step :: "Game \<Rightarrow> Game" where
  "powerup_step g =
     (case check_powerup_collision (level g) (player g) of
        (None, lvl') \<Rightarrow> g\<lparr>level := lvl'\<rparr>
      | (Some powerup, lvl') \<Rightarrow>
          play_sound ''powerup'' (g\<lparr>level := lvl', player := apply_powerup powerup (player g)\<rparr>))"

text \<open>Lines 211-213: the camera follows the player.\<close>

definition camera_step :: "Game \<Rightarrow> Game" where
  "camera_step g =
     (let target_camera_x = player_x (player g) - of_int (SCREEN_WIDTH div 3)
      in g\<lparr>camera_x := camera_x g + (target_camera_x - camera_x g) * 0.1\<rparr>)"

text \<open>Lines 215-223: finish line and bonus.\<close>

definition time_bonus :: "Game \<Rightarrow> int" where
  "time_bonus g = max 0 (10000 - timer g div 60 * 10)"

definition tile_bonus :: "Game \<Rightarrow> int" where
  "tile_bonus g = tile_count (player g) * 50"

definition finish_step :: "Game \<Rightarrow> Game" where
  "finish_step g =
     (if check_finish_line (level g) (player g) then
        (let g1 = play_sound ''success'' (g\<lparr>state := STATE_LEVEL_COMPLETE\<rparr>)
         in g1\<lparr>score := score g1 + (time_bonus g1 + tile_bonus g1)\<rparr>)
      else g)"

text \<open>Lines 225-228: the player fell off the screen.\<close>

definition fell_off_step :: "Game \<Rightarrow> Game" where
  "fell_off_step g =
     (if player_y (player g) > of_int (SCREEN_HEIGHT + 200)
      then play_sound ''fall'' (g\<lparr>state := STATE_GAME_OVER\<rparr>)
      else g)"

text \<open>The state of a PLAYING frame when it reaches the gap check (line 193).\<close>

definition before_gap :: "Keys \<Rightarrow> Game \<Rightarrow> Game" where
  "before_gap keys g = collect_step (physics_step keys g)"

text \<open>The state of a PLAYING frame when it reaches the finish-line check (line 215).\<close>

definition before_finish :: "Keys \<Rightarrow> Game \<Rightarrow> Game" where
  "before_finish keys g = camera_step (powerup_step (gap_step (before_gap keys g)))"

definition update_playing :: "Keys \<Rightarrow> Game \<Rightarrow> Game" where
  "update_playing keys g = fell_off_step (finish_step (before_finish keys g))"

text \<open>Game.update.\<close>

definition update :: "Keys \<Rightarrow> Game \<Rightarrow> Game" where
  "update keys g =
     (case state g of
        STATE_STARTING \<Rightarrow>
          (let g1 = g\<lparr>state_timer := state_timer g - 1\<rparr>
           in if state_timer g1 \<le> 0 then g1\<lparr>state := STATE_PLAYING\<rparr> else g1)
      | STATE_PLAYING \<Rightarrow> update_playing keys g
      | STATE_PAUSED \<Rightarrow> g
      | STATE_GAME_OVER \<Rightarrow> g
      | STATE_LEVEL_COMPLETE \<Rightarrow> g)"

text \<open>
  Game.handle_event. An event is a quit request, a key press, or anything else. A
  restart draws a fresh random level and may or may not manage to write the high-score
  file; both are parameters of the model. The first component of the result is true
  when the method returns False, that is, when the game should exit.
\<close>

datatype key = KEY_ESCAPE | KEY_p | KEY_SPACE | KEY_UP | KEY_w | KEY_OTHER

datatype event = QUIT | KEYDOWN key | OTHER_EVENT

definition is_jump_key :: "key \<Rightarrow> bool" where
  "is_jump_key k = (k = KEY_SPACE \<or> k = KEY_UP \<or> k = KEY_w)"

definition save_high_score :: "bool \<Rightarrow> Game \<Rightarrow> Game" where
  "save_high_score written g =
     (if score g > high_score g \<and> written then g\<lparr>high_score := score g\<rparr> else g)"

definition restart_game :: "Level \<Rightarrow> bool \<Rightarrow> Game \<Rightarrow> Game" where
  "restart_game new_level written g =
     (save_high_score written g)
       \<lparr>player := Player_init 100 (of_int (SCREEN_HEIGHT - 100)), level := new_level,
        score := 0, timer := 0, camera_x := 0, state := STATE_STARTING, state_timer := 180\<rparr>"

text \<open>Player.handle_event.\<close>

definition player_handle_event :: "event \<Rightarrow> Player \<Rightarrow> Player" where
  "player_handle_event ev pl =
     (case ev of
        KEYDOWN k \<Rightarrow> (if is_jump_key k \<and> on_ground pl then snd (jump pl) else pl)
      | _ \<Rightarrow> pl)"

definition handle_keydown :: "Level \<Rightarrow> bool \<Rightarrow> key \<Rightarrow> Game \<Rightarrow> Game" where
  "handle_keydown new_level written k g =
     (let g1 = (if k = KEY_p then
                  (if state g = STATE_PLAYING then g\<lparr>state := STATE_PAUSED\<rparr>
                   else if state g = STATE_PAUSED then g\<lparr>state := STATE_PLAYING\<rparr>
                   else g)
                else g)
      in if is_jump_key k then
           (if state g1 = STATE_PLAYING then
              (case jump (player g1) of
                 (True, pl') \<Rightarrow> play_sound ''jump'' (g1\<lparr>player := pl'\<rparr>)
               | (False, pl') \<Rightarrow> g1\<lparr>player := pl'\<rparr>)
            else if state g1 = STATE_GAME_OVER \<or> state g1 = STATE_LEVEL_COMPLETE
            then restart_game new_level written g1
            else g1)
         else g1)"

definition handle_event :: "Level \<Rightarrow> bool \<Rightarrow> event \<Rightarrow> Game \<Rightarrow> bool \<times> Game" where
  "handle_event new_level written ev g =
     (case ev of
        QUIT \<Rightarrow> (True, g)
      | KEYDOWN KEY_ESCAPE \<Rightarrow> (True, g)
      | _ \<Rightarrow>
         (let g1 = (case ev of KEYDOWN k \<Rightarrow> handle_keydown new_level written k g | _ \<Rightarrow> g)
          in (False, if state g1 = STATE_PLAYING
                     then g1\<lparr>player := player_handle_event ev (player g1)\<rparr> else g1)))"

text \<open>
  The states a session can reach: it starts from Game.__init__, and each step is one
  Game.update or one Game.handle_event that did not ask to exit.
\<close>

inductive reachable :: "Game \<Rightarrow> bool" where
  reach_init: "reachable (Game_init lvl hs)"
| reach_update: "reachable g \<Longrightarrow> reachable (update keys g)"
| reach_event: "reachable g \<Longrightarrow> reachable (snd (handle_event new_level written ev g))"

subsection \<open>Example states\<close>

text \<open>
  Concrete inputs on which the theorems below are evaluated. \<open>ground\<close> is the ground
  platform that \<^verbatim>\<open>_generate_level\<close> creates first (line 304); \<open>ground_level\<close> is a
  level with that platform, no tiles or power-ups, and the generated finish line.
\<close>

definition ground :: Platform where
  "ground = \<lparr>plat_x = 0, plat_y = of_int ground_height, plat_width = of_int level_width, plat_height = 50\<rparr>"

definition ground_level :: Level where
  "ground_level = \<lparr>platforms = [ground], tiles = [], power_ups = [], finish_line = Some generated_finish_line\<rparr>"

definition keys_none :: Keys where
  "keys_none = \<lparr>K_LEFT = False, K_a = False, K_RIGHT = False, K_d = False,
                 K_SPACE = False, K_UP = False, K_w = False\<rparr>"

definition keys_right :: Keys where
  "keys_right = keys_none\<lparr>K_RIGHT := True\<rparr>"

definition airborne :: "real \<Rightarrow> real \<Rightarrow> real \<Rightarrow> real \<Rightarrow> Player" where
  "airborne a b va vb = (Player_init a b)\<lparr>vel_x := va, vel_y := vb, on_ground := False\<rparr>"

definition ledge :: Platform where
  "ledge = \<lparr>plat_x = 200, plat_y = 300, plat_width = 300, plat_height = 20\<rparr>"

definition ledge_level :: Level where
  "ledge_level = \<lparr>platforms = [ledge], tiles = [], power_ups = [], finish_line = Some generated_finish_line\<rparr>"

text \<open>
  A generated-style platform followed by a bridge whose top is 5 lower and which the
  platform's ground-test range reaches: \<open>build_bridge\<close> appends, so the bridge comes
  later in the list.
\<close>

definition long_platform :: Platform where
  "long_platform = \<lparr>plat_x = 500, plat_y = 400, plat_width = 300, plat_height = 20\<rparr>"

definition bridged_level :: Level where
  "bridged_level =
     \<lparr>platforms = [long_platform, bridge_at 810 385], tiles = [], power_ups = [],
      finish_line = Some generated_finish_line\<rparr>"

definition bridge_only_level :: Level where
  "bridge_only_level = bridged_level\<lparr>platforms := [bridge_at 810 385]\<rparr>"





text \<open>
  Games in the PLAYING state. \<open>falling_game\<close>: an actor with two tiles falling at
  \<open>vel_y = 5\<close> from (1000, 100), far above the ground, so that the probe of
  \<open>check_gap\<close> (100 down from the centre) meets no platform. \<open>last_jump_game\<close>: an
  actor without tiles 21 frames into a jump from the ground at x = 4575 with the right key
  held, one step before the finish line at x = 4700. \<open>arriving_game\<close>: an actor walking
  on the ground one step before the finish line. \<open>full_stack_game\<close>: an actor with 20
  tiles standing on an uncollected tile.
\<close>

definition playing_game :: "Level \<Rightarrow> Player \<Rightarrow> Game" where
  "playing_game lvl pl = (Game_init lvl 0)\<lparr>state := STATE_PLAYING, state_timer := 0, player := pl\<rparr>"

definition falling_player :: Player where
  "falling_player = (airborne 1000 100 0 5)\<lparr>tile_count := 2\<rparr>"

definition falling_game :: Game where
  "falling_game = playing_game ground_level falling_player"

definition last_jump_player :: Player where
  "last_jump_player = airborne 4680 387.8 5 1.8"

definition last_jump_game :: Game where
  "last_jump_game = playing_game ground_level last_jump_player"

definition arriving_player :: Player where
  "arriving_player = Player_init 4680 520"

definition arriving_game :: Game where
  "arriving_game = playing_game ground_level arriving_player"

definition hover_tile :: Tile where
  "hover_tile = \<lparr>tile_x = 100, tile_y = 520, tile_collected = False, hover_offset = 0,
                  hover_speed = 0.03, hover_range = 4, original_y = 520\<rparr>"

definition full_stack_game :: Game where
  "full_stack_game =
     playing_game (ground_level\<lparr>tiles := [hover_tile]\<rparr>) ((Player_init 100 520)\<lparr>tile_count := 20\<rparr>)"


section \<open>Properties\<close>

lemmas const_defs =
  SCREEN_WIDTH_def SCREEN_HEIGHT_def player_width_def player_height_def speed_def jump_power_def
  gravity_def max_tiles_def tile_width_def tile_height_def powerup_radius_def finish_width_def
  level_width_def ground_height_def

lemmas rect_defs =
  py_int_def mk_Rect_def colliderect_def platform_get_rect_def tile_get_rect_def
  powerup_get_rect_def finish_get_rect_def player_get_rect_def

lemmas example_defs =
  ground_def ground_level_def keys_none_def keys_right_def airborne_def ledge_def ledge_level_def
  generated_finish_line_def Player_init_def long_platform_def bridged_level_def
  bridge_only_level_def bridge_at_def

lemmas collision_defs =
  ground_test_def land_on_def left_overlap_def right_overlap_def top_overlap_def
  bottom_overlap_def collision_side_def resolve_platform_def collision_passes_def
  check_collision_def resolved_def


subsection \<open>The collision resolver\<close>

lemma ground_pass_Some:
  "ground_pass pl ps = Some (p, q) \<Longrightarrow> q = land_on pl p \<and> p \<in> set ps \<and> ground_test pl p"
  by (induction ps) (auto split: if_splits)



text \<open>A branch of pass 2 runs only when the velocity on its axis is not zero.\<close>

lemma collision_side_gate:
  "collision_side r pl p = Some s \<Longrightarrow>
     (side_axis s = Horizontal \<longrightarrow> vel_x pl \<noteq> 0) \<and> (side_axis s = Vertical \<longrightarrow> vel_y pl \<noteq> 0)"
  by (auto simp: collision_side_def Let_def split: if_splits)

text \<open>It zeroes that velocity and leaves the other axis alone.\<close>

lemma apply_side_vel:
  "(side_axis s = Horizontal \<longrightarrow>
      vel_x (apply_side s pl p) = 0 \<and> player_y (apply_side s pl p) = player_y pl \<and>
      vel_y (apply_side s pl p) = vel_y pl) \<and>
   (side_axis s = Vertical \<longrightarrow>
      vel_y (apply_side s pl p) = 0 \<and> player_x (apply_side s pl p) = player_x pl \<and>
      vel_x (apply_side s pl p) = vel_x pl)"
  by (cases s) simp_all


lemma resolve_platform_y_fixed:
  "vel_y pl = 0 \<Longrightarrow>
     player_y (resolve_platform r pl p) = player_y pl \<and> vel_y (resolve_platform r pl p) = 0"
  using collision_side_gate[of r pl p] apply_side_vel[of _ pl p]
  by (cases "collision_side r pl p") (auto simp: resolve_platform_def intro: axis.exhaust)


lemma resolve_pass_y_fixed:
  "vel_y pl = 0 \<Longrightarrow>
     player_y (resolve_pass r pl ps) = player_y pl \<and> vel_y (resolve_pass r pl ps) = 0"
  by (induction ps arbitrary: pl) (simp_all add: resolve_platform_y_fixed)






text \<open>
  The closing test of lines 538-540, applied to the result of the two passes: landing in
  pass 1 sets \<open>on_ground\<close>, so the early return and the test agree.
\<close>

lemma check_collision_eq_passes:
  "check_collision lvl pl =
     (let pl1 = collision_passes lvl pl
      in if on_ground pl \<and> \<not> on_ground pl1 \<and> vel_y pl1 = 0 then pl1\<lparr>vel_y := 0.1\<rparr> else pl1)"
proof (cases "ground_pass (pl\<lparr>on_ground := False\<rparr>) (platforms lvl)")
  case None
  then show ?thesis by (simp add: check_collision_def collision_passes_def Let_def)
next
  case (Some pq)
  obtain p q where pq: "pq = (p, q)" by (cases pq)
  with Some have "q = land_on (pl\<lparr>on_ground := False\<rparr>) p" using ground_pass_Some by blast
  then have "on_ground q" by (simp add: land_on_def)
  with Some pq show ?thesis by (simp add: check_collision_def collision_passes_def Let_def)
qed

text \<open>
  An actor that enters the call grounded with zero vertical velocity and leaves it
  ungrounded has had the fall started: pass 2 cannot change a zero vertical velocity.
\<close>

lemma check_collision_starts_fall_from_rest:
  assumes "on_ground pl" "vel_y pl = 0" "\<not> on_ground (check_collision lvl pl)"
  shows "vel_y (check_collision lvl pl) = 0.1"
proof (cases "ground_pass (pl\<lparr>on_ground := False\<rparr>) (platforms lvl)")
  case None
  have "vel_y (resolve_pass (player_get_rect pl) (pl\<lparr>on_ground := False\<rparr>) (platforms lvl)) = 0"
    using resolve_pass_y_fixed[of "pl\<lparr>on_ground := False\<rparr>"] assms(2) by simp
  with None assms show ?thesis by (simp add: check_collision_def Let_def split: if_splits)
next
  case (Some pq)
  obtain p q where pq: "pq = (p, q)" by (cases pq)
  with Some have "q = land_on (pl\<lparr>on_ground := False\<rparr>) p" using ground_pass_Some by blast
  then have "on_ground q" by (simp add: land_on_def)
  with Some pq assms show ?thesis by (simp add: check_collision_def)
qed

text \<open>
  C8. If the actor was on the ground when \<open>check_collision\<close> was called, the two passes
  found it on no platform, and its vertical velocity is zero after them, then the call
  returns the passes' result with the vertical velocity set to 0.1, a positive
  (downward) value.
\<close>

theorem check_collision_injects_fall_velocity:
  assumes "on_ground pl"
    and "\<not> on_ground (collision_passes lvl pl)"
    and "vel_y (collision_passes lvl pl) = 0"
  shows "check_collision lvl pl = (collision_passes lvl pl)\<lparr>vel_y := 0.1\<rparr> \<and>
         0 < vel_y (check_collision lvl pl)"
  using assms by (simp add: check_collision_eq_passes Let_def)

text \<open>Evaluated on a grounded actor standing in mid-air at (100, 100), far above the ground.\<close>

theorem check_collision_injects_fall_velocity_witness:
  "on_ground (Player_init 100 100) \<and>
   \<not> on_ground (collision_passes ground_level (Player_init 100 100)) \<and>
   vel_y (collision_passes ground_level (Player_init 100 100)) = 0 \<and>
   vel_y (check_collision ground_level (Player_init 100 100)) = 0.1"
proof -
  have a: "on_ground (Player_init 100 100)" by (simp add: example_defs)
  have b: "\<not> on_ground (collision_passes ground_level (Player_init 100 100))"
    by (simp add: collision_defs example_defs rect_defs const_defs)
  have c: "vel_y (collision_passes ground_level (Player_init 100 100)) = 0"
    by (simp add: collision_defs example_defs rect_defs const_defs)
  from a b c check_collision_injects_fall_velocity [OF a b c] show ?thesis by simp
qed

subsection \<open>Ground snap\<close>

lemma ground_test_on_ground [simp]: "ground_test (pl\<lparr>on_ground := b\<rparr>) = ground_test pl"
  by (rule ext) (simp add: ground_test_def)

lemma ground_pass_find:
  "ground_pass pl ps = map_option (\<lambda>p. (p, land_on pl p)) (find (ground_test pl) ps)"
  by (induction ps) simp_all

text \<open>
  C6, as stated, fails. An actor at rest on the bridge of \<open>bridged_level\<close> (bottom edge
  at 405, exactly the bridge's top, zero velocity) is within the tolerance band of the
  earlier platform, whose top is at 400: pass 1 stops at that platform and lifts the
  actor from y = 375 to y = 370.
\<close>

theorem ground_snap_moves_resting_actor:
  "bridge_at 810 385 \<in> set (platforms bridged_level) \<and>
   ground_test (Player_init 815 375) (bridge_at 810 385) \<and>
   player_y (Player_init 815 375) + of_int player_height / 2 = plat_y (bridge_at 810 385) \<and>
   vel_x (Player_init 815 375) = 0 \<and> vel_y (Player_init 815 375) = 0 \<and>
   player_y (Player_init 815 375) = 375 \<and>
   player_y (check_collision bridged_level (Player_init 815 375)) = 370"
  by (simp add: collision_defs example_defs const_defs)

text \<open>
  C6, amended. When the first platform in list order that passes the ground test has
  its top exactly at the actor's bottom edge, \<open>check_collision\<close> leaves the position
  unchanged (and the actor grounded with zero vertical velocity). The ground test
  itself requires a vertical velocity that is not negative.
\<close>

theorem ground_snap_idempotent_on_first_match:
  assumes "find (ground_test pl) (platforms lvl) = Some q"
    and "player_y pl + of_int player_height / 2 = plat_y q"
  shows "player_x (check_collision lvl pl) = player_x pl \<and>
         player_y (check_collision lvl pl) = player_y pl \<and>
         vel_y (check_collision lvl pl) = 0 \<and> on_ground (check_collision lvl pl)"
proof -
  have "ground_pass (pl\<lparr>on_ground := False\<rparr>) (platforms lvl) =
          Some (q, land_on (pl\<lparr>on_ground := False\<rparr>) q)"
    using assms(1) by (simp add: ground_pass_find)
  then have "check_collision lvl pl = land_on (pl\<lparr>on_ground := False\<rparr>) q"
    by (simp add: check_collision_def)
  with assms(2) show ?thesis by (simp add: land_on_def)
qed

text \<open>Evaluated on the same actor with the bridge as the only platform.\<close>

theorem ground_snap_idempotent_on_first_match_witness:
  "find (ground_test (Player_init 815 375)) (platforms bridge_only_level) = Some (bridge_at 810 385) \<and>
   player_y (Player_init 815 375) + of_int player_height / 2 = plat_y (bridge_at 810 385) \<and>
   player_x (check_collision bridge_only_level (Player_init 815 375)) = 815 \<and>
   player_y (check_collision bridge_only_level (Player_init 815 375)) = 375"
proof -
  have a: "find (ground_test (Player_init 815 375)) (platforms bridge_only_level) =
             Some (bridge_at 810 385)"
    by (simp add: collision_defs example_defs const_defs)
  have b: "player_y (Player_init 815 375) + of_int player_height / 2 = plat_y (bridge_at 810 385)"
    by (simp add: example_defs const_defs)
  from a b ground_snap_idempotent_on_first_match [OF a b] show ?thesis
    by (simp add: example_defs)
qed

subsection \<open>Actor kinematics\<close>

lemma vel_x_tick_powerups [simp]: "vel_x (tick_powerups pl) = vel_x pl"
  by (simp add: tick_powerups_def Let_def)

lemma vel_x_tick_jump_safety [simp]: "vel_x (tick_jump_safety pl) = vel_x pl"
  by (simp add: tick_jump_safety_def)

lemma vel_x_integrate [simp]: "vel_x (integrate pl) = vel_x pl"
  by (simp add: integrate_def)

lemma vel_x_held_jump [simp]: "vel_x (held_jump keys pl) = vel_x pl"
  by (simp add: held_jump_def jump_def)

lemma vel_x_apply_gravity [simp]: "vel_x (apply_gravity pl) = vel_x pl"
  by (simp add: apply_gravity_def)

lemma vel_x_move_intent:
  "vel_x (move_intent keys pl) =
     (if K_RIGHT keys \<or> K_d keys then base_speed pl
      else if K_LEFT keys \<or> K_a keys then - base_speed pl else 0)"
  by (simp add: move_intent_def Let_def)

lemma vel_x_Player_update:
  "vel_x (Player_update keys pl) =
     (if K_RIGHT keys \<or> K_d keys then base_speed pl
      else if K_LEFT keys \<or> K_a keys then - base_speed pl else 0)"
  by (simp add: Player_update_def vel_x_move_intent)

lemma base_speed_linear:
  "base_speed (pl\<lparr>tile_count := n\<rparr>) = (if speed_boost pl then 1.5 else 1) * (5 - of_int n / 8)"
  by (simp add: base_speed_def const_defs Let_def field_simps)

text \<open>
  C9, as stated, fails: with no direction key held the horizontal speed after the
  update is 0 whatever the tile count is, so it is not strictly decreasing.
\<close>

theorem idle_speed_ignores_tile_count:
  "\<bar>vel_x (Player_update keys_none ((Player_init 100 520)\<lparr>tile_count := 0\<rparr>))\<bar> = 0 \<and>
   \<bar>vel_x (Player_update keys_none ((Player_init 100 520)\<lparr>tile_count := 20\<rparr>))\<bar> = 0"
  by (simp add: vel_x_Player_update example_defs)

text \<open>
  C9, amended. When a direction key is held, for the same keys and the same modifiers
  the horizontal speed after Player.update is strictly smaller at a larger tile count,
  for counts \<open>0 \<le> n1 < n2 \<le> 20\<close>, and it is linear in the count:
  \<open>5 - n / 8\<close>, times 1.5 under the speed boost.
\<close>

theorem speed_strictly_decreasing_in_tile_count:
  assumes "K_LEFT keys \<or> K_a keys \<or> K_RIGHT keys \<or> K_d keys"
    and "0 \<le> n1" "n1 < n2" "n2 \<le> 20"
  shows "\<bar>vel_x (Player_update keys (pl\<lparr>tile_count := n2\<rparr>))\<bar>
           < \<bar>vel_x (Player_update keys (pl\<lparr>tile_count := n1\<rparr>))\<bar> \<and>
         \<bar>vel_x (Player_update keys (pl\<lparr>tile_count := n1\<rparr>))\<bar>
           = (if speed_boost pl then 1.5 else 1) * (5 - of_int n1 / 8) \<and>
         \<bar>vel_x (Player_update keys (pl\<lparr>tile_count := n2\<rparr>))\<bar>
           = (if speed_boost pl then 1.5 else 1) * (5 - of_int n2 / 8)"
proof -
  have pos: "\<And>n. n \<le> 20 \<Longrightarrow> 0 < base_speed (pl\<lparr>tile_count := n\<rparr>)"
    by (simp add: base_speed_linear)
  have v: "\<bar>vel_x (Player_update keys (pl\<lparr>tile_count := n\<rparr>))\<bar> = base_speed (pl\<lparr>tile_count := n\<rparr>)"
    if "n \<le> 20" for n
  proof -
    have "0 < base_speed (pl\<lparr>tile_count := n\<rparr>)" using pos that by simp
    then show ?thesis using assms(1) by (auto simp: vel_x_Player_update)
  qed
  have "base_speed (pl\<lparr>tile_count := n2\<rparr>) < base_speed (pl\<lparr>tile_count := n1\<rparr>)"
    using assms by (simp add: base_speed_linear)
  moreover have "n1 \<le> 20" using assms by simp
  ultimately show ?thesis using v assms(4) by (simp add: base_speed_linear)
qed

text \<open>Evaluated with the right key held, at 4 and 12 tiles: speeds 4.5 and 3.5.\<close>

theorem speed_strictly_decreasing_in_tile_count_witness:
  "\<bar>vel_x (Player_update keys_right ((Player_init 100 520)\<lparr>tile_count := 12\<rparr>))\<bar>
     < \<bar>vel_x (Player_update keys_right ((Player_init 100 520)\<lparr>tile_count := 4\<rparr>))\<bar> \<and>
   \<bar>vel_x (Player_update keys_right ((Player_init 100 520)\<lparr>tile_count := 4\<rparr>))\<bar> = 4.5 \<and>
   \<bar>vel_x (Player_update keys_right ((Player_init 100 520)\<lparr>tile_count := 12\<rparr>))\<bar> = 3.5"
proof -
  have k: "K_LEFT keys_right \<or> K_a keys_right \<or> K_RIGHT keys_right \<or> K_d keys_right"
    by (simp add: example_defs)
  have "\<not> speed_boost (Player_init 100 520)" by (simp add: example_defs)
  with speed_strictly_decreasing_in_tile_count [OF k, of 4 12 "Player_init 100 520"]
  show ?thesis by simp
qed

subsection \<open>Gap detection\<close>

text \<open>
  C5. Gap detection is suppressed during the jump safety window: whenever
  \<open>jump_safety > 0\<close>, \<open>check_gap\<close> returns false, whatever the platform list is
  (in particular when no platform lies below the actor).
\<close>

theorem check_gap_false_in_safety_window:
  "jump_safety pl > 0 \<Longrightarrow> \<not> check_gap lvl pl"
  by (simp add: check_gap_def)

text \<open>Evaluated three frames into the safety window, falling fast over empty space.\<close>

theorem check_gap_false_in_safety_window_witness:
  "jump_safety ((airborne 100 100 5 5)\<lparr>jump_safety := 3\<rparr>) > 0 \<and>
   \<not> check_gap (ground_level\<lparr>platforms := []\<rparr>) ((airborne 100 100 5 5)\<lparr>jump_safety := 3\<rparr>) \<and>
   check_gap (ground_level\<lparr>platforms := []\<rparr>) (airborne 100 100 5 5)"
proof -
  have s: "jump_safety ((airborne 100 100 5 5)\<lparr>jump_safety := 3\<rparr>) > 0"
    by (simp add: example_defs)
  have g: "check_gap (ground_level\<lparr>platforms := []\<rparr>) (airborne 100 100 5 5)"
    by (simp add: check_gap_def example_defs)
  from s g check_gap_false_in_safety_window [OF s] show ?thesis by simp
qed

subsection \<open>The tile count through a frame\<close>

lemmas player_defs =
  move_intent_def apply_gravity_def held_jump_def integrate_def tick_jump_safety_def
  tick_powerups_def Player_update_def jump_def

lemmas game_example_defs =
  playing_game_def falling_player_def falling_game_def last_jump_player_def last_jump_game_def
  arriving_player_def arriving_game_def hover_tile_def full_stack_game_def Game_init_def

text \<open>Only \<open>add_tile\<close> and \<open>remove_tile\<close> write the tile count.\<close>

lemma tile_count_jump [simp]: "tile_count (snd (jump pl)) = tile_count pl"
  by (simp add: jump_def Let_def)

lemma tile_count_Player_update [simp]: "tile_count (Player_update keys pl) = tile_count pl"
  by (simp add: player_defs Let_def)

lemma tile_count_apply_side [simp]: "tile_count (apply_side s pl p) = tile_count pl"
  by (cases s) simp_all

lemma tile_count_resolve_platform [simp]: "tile_count (resolve_platform r pl p) = tile_count pl"
  by (simp add: resolve_platform_def split: option.splits)

lemma tile_count_resolve_pass [simp]: "tile_count (resolve_pass r pl ps) = tile_count pl"
  by (induction ps arbitrary: pl) simp_all

lemma tile_count_collision_passes [simp]: "tile_count (collision_passes lvl pl) = tile_count pl"
proof (cases "ground_pass (pl\<lparr>on_ground := False\<rparr>) (platforms lvl)")
  case None
  then show ?thesis by (simp add: collision_passes_def)
next
  case (Some pq)
  obtain p q where pq: "pq = (p, q)" by (cases pq)
  with Some have "q = land_on (pl\<lparr>on_ground := False\<rparr>) p" using ground_pass_Some by blast
  with Some pq show ?thesis by (simp add: collision_passes_def land_on_def)
qed

lemma tile_count_check_collision [simp]: "tile_count (check_collision lvl pl) = tile_count pl"
  by (simp add: check_collision_eq_passes Let_def)

lemma tile_count_apply_powerup [simp]: "tile_count (apply_powerup u pl) = tile_count pl"
  by (cases u) (simp_all add: activate_speed_boost_def activate_jump_boost_def activate_tile_magnet_def)

lemma tile_count_add_tile:
  "tile_count (add_tile pl) = (if tile_count pl < 20 then tile_count pl + 1 else tile_count pl)"
  by (simp add: add_tile_def max_tiles_def)

lemma tile_count_remove_tile:
  "tile_count (snd (remove_tile pl)) = (if tile_count pl > 0 then tile_count pl - 1 else tile_count pl)"
  by (simp add: remove_tile_def)

subsection \<open>Tile collection\<close>

lemma collect_first_length [simp]: "length (snd (collect_first r ts)) = length ts"
  by (induction ts) (auto split: prod.splits)

lemma collect_first_keeps_collected:
  "i < length ts \<Longrightarrow> tile_collected (ts ! i) \<Longrightarrow> tile_collected (snd (collect_first r ts) ! i)"
  by (induction ts arbitrary: i) (auto split: prod.splits simp: nth_Cons')

text \<open>The loop of \<open>check_tile_collection\<close> returns at the first uncollected tile that collides.\<close>

lemma collect_first_at:
  assumes "i < length ts" "\<not> tile_collected (ts ! i)" "colliderect r (tile_get_rect (ts ! i))"
    and "\<forall>j<i. tile_collected (ts ! j) \<or> \<not> colliderect r (tile_get_rect (ts ! j))"
  shows "collect_first r ts = (Some ((ts ! i)\<lparr>tile_collected := True\<rparr>), ts[i := (ts ! i)\<lparr>tile_collected := True\<rparr>])"
  using assms
proof (induction ts arbitrary: i)
  case Nil
  then show ?case by simp
next
  case (Cons t ts)
  show ?case
  proof (cases i)
    case 0
    with Cons.prems show ?thesis by simp
  next
    case (Suc k)
    with Cons.prems have head: "tile_collected t \<or> \<not> colliderect r (tile_get_rect t)" by auto
    have "\<forall>j<k. tile_collected (ts ! j) \<or> \<not> colliderect r (tile_get_rect (ts ! j))"
      using Cons.prems(4) Suc by auto
    with Cons.IH[of k] Cons.prems Suc have
      "collect_first r ts = (Some ((ts ! k)\<lparr>tile_collected := True\<rparr>), ts[k := (ts ! k)\<lparr>tile_collected := True\<rparr>])"
      by simp
    with head Suc show ?thesis by auto
  qed
qed

subsection \<open>The stages of a PLAYING frame\<close>

text \<open>What each stage of \<open>update_playing\<close> leaves alone.\<close>

lemma collect_step_cases:
  "collect_step g =
     (case fst (check_tile_collection (level g) (player g)) of
        None \<Rightarrow> g\<lparr>level := snd (check_tile_collection (level g) (player g))\<rparr>
      | Some t \<Rightarrow> play_sound ''pickup''
          (g\<lparr>level := snd (check_tile_collection (level g) (player g)),
             player := add_tile (player g), score := score g + 10\<rparr>))"
  by (simp add: collect_step_def split: prod.splits option.splits)

lemma check_tile_collection_level [simp]:
  "platforms (snd (check_tile_collection lvl pl)) = platforms lvl"
  "finish_line (snd (check_tile_collection lvl pl)) = finish_line lvl"
  "power_ups (snd (check_tile_collection lvl pl)) = power_ups lvl"
  "tiles (snd (check_tile_collection lvl pl)) = snd (collect_first (player_get_rect pl) (tiles lvl))"
  by (simp_all add: check_tile_collection_def split: prod.splits)

lemma check_powerup_collision_level [simp]:
  "platforms (snd (check_powerup_collision lvl pl)) = platforms lvl"
  "finish_line (snd (check_powerup_collision lvl pl)) = finish_line lvl"
  "tiles (snd (check_powerup_collision lvl pl)) = tiles lvl"
  by (simp_all add: check_powerup_collision_def split: prod.splits)

lemma powerup_step_cases:
  "powerup_step g =
     (case fst (check_powerup_collision (level g) (player g)) of
        None \<Rightarrow> g\<lparr>level := snd (check_powerup_collision (level g) (player g))\<rparr>
      | Some u \<Rightarrow> play_sound ''powerup''
          (g\<lparr>level := snd (check_powerup_collision (level g) (player g)),
             player := apply_powerup u (player g)\<rparr>))"
  by (simp add: powerup_step_def split: prod.splits option.splits)

lemma physics_step_fields [simp]:
  "state (physics_step keys g) = state g"
  "score (physics_step keys g) = score g"
  "timer (physics_step keys g) = timer g + 1"
  "platforms (level (physics_step keys g)) = platforms (level g)"
  "finish_line (level (physics_step keys g)) = finish_line (level g)"
  "tiles (level (physics_step keys g)) = map Tile_update (tiles (level g))"
  "tile_count (player (physics_step keys g)) = tile_count (player g)"
  by (simp_all add: physics_step_def Level_update_def Let_def)

lemma collect_step_fields [simp]:
  "state (collect_step g) = state g"
  "timer (collect_step g) = timer g"
  "platforms (level (collect_step g)) = platforms (level g)"
  "finish_line (level (collect_step g)) = finish_line (level g)"
  "tiles (level (collect_step g)) = snd (collect_first (player_get_rect (player g)) (tiles (level g)))"
  by (simp_all add: collect_step_cases play_sound_def split: option.splits)

lemma collect_step_tile_count:
  "tile_count (player (collect_step g)) = tile_count (player g) \<or>
   tile_count (player (collect_step g)) = tile_count (add_tile (player g))"
  by (simp add: collect_step_cases play_sound_def split: option.splits)

lemma position_add_tile [simp]:
  "player_x (add_tile pl) = player_x pl" "player_y (add_tile pl) = player_y pl"
  by (simp_all add: add_tile_def)

lemma collect_step_position [simp]:
  "player_x (player (collect_step g)) = player_x (player g)"
  "player_y (player (collect_step g)) = player_y (player g)"
  by (simp_all add: collect_step_cases play_sound_def split: option.splits)

lemma gap_step_fields [simp]:
  "timer (gap_step g) = timer g"
  "score (gap_step g) = score g"
  "finish_line (level (gap_step g)) = finish_line (level g)"
  "tiles (level (gap_step g)) = tiles (level g)"
  "player_x (player (gap_step g)) = player_x (player g)"
  "player_y (player (gap_step g)) = player_y (player g)"
  by (simp_all add: gap_step_def play_sound_def build_bridge_def remove_tile_def fall_def Let_def)

lemma gap_step_tile_count:
  "tile_count (player (gap_step g)) = tile_count (player g) \<or>
   (0 < tile_count (player g) \<and> tile_count (player (gap_step g)) = tile_count (player g) - 1)"
  by (simp add: gap_step_def play_sound_def remove_tile_def fall_def Let_def)

lemma gap_step_no_tiles:
  "tile_count (player g) = 0 \<Longrightarrow> platforms (level (gap_step g)) = platforms (level g)"
  by (simp add: gap_step_def play_sound_def fall_def)

lemma gap_step_quiet: "\<not> (vel_y (player h) > 2 \<and> check_gap (level h) (player h)) \<Longrightarrow> gap_step h = h"
  by (auto simp: gap_step_def)

lemma gap_step_bridge:
  assumes "vel_y (player h) > 2" "check_gap (level h) (player h)" "tile_count (player h) > 0"
  shows "platforms (level (gap_step h)) = platforms (level h) @ [bridge_at (player_x (player h)) (player_y (player h))] \<and>
         tile_count (player (gap_step h)) = tile_count (player h) - 1"
  using assms by (simp add: gap_step_def play_sound_def build_bridge_def remove_tile_def Let_def)

lemma gap_step_fall:
  assumes "vel_y (player h) > 2" "check_gap (level h) (player h)" "tile_count (player h) = 0"
  shows "state (gap_step h) = STATE_GAME_OVER \<and> vel_y (player (gap_step h)) = 15 \<and>
         platforms (level (gap_step h)) = platforms (level h)"
  using assms by (simp add: gap_step_def play_sound_def fall_def)

lemma powerup_step_fields [simp]:
  "state (powerup_step g) = state g"
  "timer (powerup_step g) = timer g"
  "score (powerup_step g) = score g"
  "platforms (level (powerup_step g)) = platforms (level g)"
  "finish_line (level (powerup_step g)) = finish_line (level g)"
  "tiles (level (powerup_step g)) = tiles (level g)"
  "tile_count (player (powerup_step g)) = tile_count (player g)"
  by (simp_all add: powerup_step_cases play_sound_def split: option.splits)

lemma position_apply_powerup [simp]:
  "player_x (apply_powerup u pl) = player_x pl" "player_y (apply_powerup u pl) = player_y pl"
  "vel_y (apply_powerup u pl) = vel_y pl"
  by (cases u; simp add: activate_speed_boost_def activate_jump_boost_def activate_tile_magnet_def)+

lemma powerup_step_position [simp]:
  "player_x (player (powerup_step g)) = player_x (player g)"
  "player_y (player (powerup_step g)) = player_y (player g)"
  "vel_y (player (powerup_step g)) = vel_y (player g)"
  by (simp_all add: powerup_step_cases play_sound_def split: option.splits)

lemma camera_step_fields [simp]:
  "state (camera_step g) = state g"
  "timer (camera_step g) = timer g"
  "score (camera_step g) = score g"
  "player (camera_step g) = player g"
  "level (camera_step g) = level g"
  by (simp_all add: camera_step_def Let_def)

lemma finish_step_fields [simp]:
  "timer (finish_step g) = timer g"
  "player (finish_step g) = player g"
  "level (finish_step g) = level g"
  by (simp_all add: finish_step_def play_sound_def Let_def)

lemma fell_off_step_fields [simp]:
  "timer (fell_off_step g) = timer g"
  "score (fell_off_step g) = score g"
  "player (fell_off_step g) = player g"
  "level (fell_off_step g) = level g"
  by (simp_all add: fell_off_step_def play_sound_def)

lemma before_gap_fields [simp]:
  "state (before_gap keys g) = state g"
  "timer (before_gap keys g) = timer g + 1"
  "platforms (level (before_gap keys g)) = platforms (level g)"
  "finish_line (level (before_gap keys g)) = finish_line (level g)"
  by (simp_all add: before_gap_def)

lemma before_finish_fields [simp]:
  "timer (before_finish keys g) = timer g + 1"
  "finish_line (level (before_finish keys g)) = finish_line (level g)"
  "tiles (level (before_finish keys g)) = tiles (level (before_gap keys g))"
  "player_x (player (before_finish keys g)) = player_x (player (before_gap keys g))"
  "player_y (player (before_finish keys g)) = player_y (player (before_gap keys g))"
  "tile_count (player (before_finish keys g)) = tile_count (player (gap_step (before_gap keys g)))"
  "platforms (level (before_finish keys g)) = platforms (level (gap_step (before_gap keys g)))"
  by (simp_all add: before_finish_def)

lemma update_playing_fields [simp]:
  "timer (update_playing keys g) = timer g + 1"
  "player (update_playing keys g) = player (before_finish keys g)"
  "level (update_playing keys g) = level (before_finish keys g)"
  by (simp_all add: update_playing_def)

subsection \<open>Example frames\<close>

text \<open>One frame of kinematics and collision for the example actors on \<open>ground_level\<close>.\<close>

lemma Level_update_ground [simp]: "Level_update ground_level = ground_level"
  by (simp add: Level_update_def ground_level_def)

lemma check_tile_collection_ground [simp]: "check_tile_collection ground_level pl = (None, ground_level)"
  by (simp add: check_tile_collection_def ground_level_def)

lemma before_gap_on_ground_level:
  "before_gap keys (playing_game ground_level pl) =
     (playing_game ground_level (check_collision ground_level (Player_update keys pl)))\<lparr>timer := 1\<rparr>"
  by (simp add: before_gap_def physics_step_def collect_step_def playing_game_def Game_init_def)

lemma falling_idle_frame:
  "check_collision ground_level (Player_update keys_none falling_player) =
     (airborne 1000 105.8 0 5.8)\<lparr>tile_count := 2\<rparr>"
proof -
  have "Player_update keys_none falling_player = (airborne 1000 105.8 0 5.8)\<lparr>tile_count := 2\<rparr>"
    by (simp add: falling_player_def player_defs example_defs const_defs base_speed_def Let_def)
  moreover have "check_collision ground_level ((airborne 1000 105.8 0 5.8)\<lparr>tile_count := 2\<rparr>) =
      (airborne 1000 105.8 0 5.8)\<lparr>tile_count := 2\<rparr>"
    by (simp add: collision_defs example_defs rect_defs const_defs Let_def)
  ultimately show ?thesis by simp
qed

lemma falling_right_frame:
  "check_collision ground_level (Player_update keys_right falling_player) =
     (airborne 1004.75 105.8 4.75 5.8)\<lparr>tile_count := 2\<rparr>"
proof -
  have "Player_update keys_right falling_player = (airborne 1004.75 105.8 4.75 5.8)\<lparr>tile_count := 2\<rparr>"
    by (simp add: falling_player_def player_defs example_defs const_defs base_speed_def Let_def)
  moreover have "check_collision ground_level ((airborne 1004.75 105.8 4.75 5.8)\<lparr>tile_count := 2\<rparr>) =
      (airborne 1004.75 105.8 4.75 5.8)\<lparr>tile_count := 2\<rparr>"
    by (simp add: collision_defs example_defs rect_defs const_defs Let_def)
  ultimately show ?thesis by simp
qed

lemma last_jump_frame:
  "check_collision ground_level (Player_update keys_right last_jump_player) =
     airborne 4685 390.4 5 2.6"
proof -
  have "Player_update keys_right last_jump_player = airborne 4685 390.4 5 2.6"
    by (simp add: last_jump_player_def player_defs example_defs const_defs base_speed_def Let_def)
  moreover have "check_collision ground_level (airborne 4685 390.4 5 2.6) = airborne 4685 390.4 5 2.6"
    by (simp add: collision_defs example_defs rect_defs const_defs Let_def)
  ultimately show ?thesis by simp
qed

lemma arriving_frame:
  "check_collision ground_level (Player_update keys_right arriving_player) =
     (Player_init 4685 520)\<lparr>vel_x := 5\<rparr>"
proof -
  have "Player_update keys_right arriving_player = (Player_init 4685 520)\<lparr>vel_x := 5\<rparr>"
    by (simp add: arriving_player_def player_defs example_defs const_defs base_speed_def Let_def)
  moreover have "check_collision ground_level ((Player_init 4685 520)\<lparr>vel_x := 5\<rparr>) = (Player_init 4685 520)\<lparr>vel_x := 5\<rparr>"
    by (simp add: collision_defs example_defs rect_defs const_defs Let_def)
  ultimately show ?thesis by simp
qed

lemma check_finish_line_cong:
  "finish_line l1 = finish_line l2 \<Longrightarrow> player_x p1 = player_x p2 \<Longrightarrow> player_y p1 = player_y p2 \<Longrightarrow>
   check_finish_line l1 p1 = check_finish_line l2 p2"
  by (simp add: check_finish_line_def player_get_rect_def split: option.splits)

subsection \<open>Resource bounds\<close>

lemma tile_count_update_playing_bounds:
  assumes "0 \<le> tile_count (player g)" "tile_count (player g) \<le> 20"
  shows "0 \<le> tile_count (player (update_playing keys g)) \<and> tile_count (player (update_playing keys g)) \<le> 20"
proof -
  let ?h = "physics_step keys g"
  have h: "0 \<le> tile_count (player ?h) \<and> tile_count (player ?h) \<le> 20" using assms by simp
  have c: "0 \<le> tile_count (player (collect_step ?h)) \<and> tile_count (player (collect_step ?h)) \<le> 20"
    using collect_step_tile_count[of ?h] h by (auto simp: tile_count_add_tile split: if_splits)
  have "0 \<le> tile_count (player (gap_step (collect_step ?h))) \<and> tile_count (player (gap_step (collect_step ?h))) \<le> 20"
    using gap_step_tile_count[of "collect_step ?h"] c by auto
  then show ?thesis by (simp add: before_gap_def)
qed

lemma tile_count_update_bounds:
  assumes "0 \<le> tile_count (player g)" "tile_count (player g) \<le> 20"
  shows "0 \<le> tile_count (player (update keys g)) \<and> tile_count (player (update keys g)) \<le> 20"
  using assms tile_count_update_playing_bounds[OF assms, of keys]
  by (cases "state g") (simp_all add: update_def Let_def)

text \<open>An event keeps the player, or restarts the game with a new player, who has no tiles.\<close>

lemma tile_count_handle_keydown:
  "tile_count (player (handle_keydown nl w k g)) = tile_count (player g) \<or>
   tile_count (player (handle_keydown nl w k g)) = 0"
  by (simp add: handle_keydown_def restart_game_def save_high_score_def play_sound_def
        Player_init_def jump_def Let_def)

lemma tile_count_handle_event:
  "tile_count (player (snd (handle_event nl w ev g))) = tile_count (player g) \<or>
   tile_count (player (snd (handle_event nl w ev g))) = 0"
proof (cases ev)
  case QUIT
  then show ?thesis by (simp add: handle_event_def)
next
  case (KEYDOWN k)
  show ?thesis
  proof (cases "k = KEY_ESCAPE")
    case True
    with KEYDOWN show ?thesis by (simp add: handle_event_def)
  next
    case False
    with KEYDOWN have "tile_count (player (snd (handle_event nl w ev g))) =
        tile_count (player (handle_keydown nl w k g))"
      by (cases k) (simp_all add: handle_event_def player_handle_event_def Let_def)
    then show ?thesis using tile_count_handle_keydown[of nl w k g] by auto
  qed
next
  case OTHER_EVENT
  then show ?thesis by (simp add: handle_event_def player_handle_event_def Let_def)
qed

lemma reachable_tile_count:
  "reachable g \<Longrightarrow> 0 \<le> tile_count (player g) \<and> tile_count (player g) \<le> 20"
proof (induction rule: reachable.induct)
  case (reach_init lvl hs)
  then show ?case by (simp add: Game_init_def Player_init_def)
next
  case (reach_update g keys)
  then show ?case using tile_count_update_bounds by blast
next
  case (reach_event g new_level written ev)
  then show ?case using tile_count_handle_event[of new_level written ev g] by auto
qed

lemma no_bridge_without_tiles:
  assumes "tile_count (player (before_gap keys h)) = 0"
  shows "platforms (level (update keys h)) = platforms (level h)"
proof (cases "state h")
  case STATE_PLAYING
  then show ?thesis using gap_step_no_tiles[OF assms] by (simp add: update_def)
qed (simp_all add: update_def Let_def)

text \<open>
  C2. In every game state reachable from \<open>Game_init\<close> by frames (\<open>update\<close>) and events
  (\<open>handle_event\<close>), the tile count of the player is between 0 and 20. \<open>add_tile\<close> and
  \<open>remove_tile\<close> keep a count within these bounds within them, also at 20 and at 0. A
  frame that reaches the gap check (game.py, line 193) with a tile count of 0 leaves the
  platform list as it was: \<open>build_bridge\<close>, the only code that appends a platform, did
  not run.
\<close>

theorem tile_count_stays_in_bounds:
  "(reachable g \<longrightarrow> 0 \<le> tile_count (player g) \<and> tile_count (player g) \<le> 20) \<and>
   (0 \<le> tile_count pa \<and> tile_count pa \<le> 20 \<longrightarrow>
      0 \<le> tile_count (add_tile pa) \<and> tile_count (add_tile pa) \<le> 20) \<and>
   (0 \<le> tile_count pr \<and> tile_count pr \<le> 20 \<longrightarrow>
      0 \<le> tile_count (snd (remove_tile pr)) \<and> tile_count (snd (remove_tile pr)) \<le> 20) \<and>
   (tile_count (player (before_gap keys h)) = 0 \<longrightarrow>
      platforms (level (update keys h)) = platforms (level h))"
  using reachable_tile_count no_bridge_without_tiles
  by (simp add: tile_count_add_tile tile_count_remove_tile)

text \<open>
  Evaluated on the first frame of a new game, on \<open>add_tile\<close> at 20 tiles, on
  \<open>remove_tile\<close> at 0 tiles, and on the frame of \<open>last_jump_game\<close>, where the gap check
  fires with no tiles.
\<close>

theorem tile_count_stays_in_bounds_witness:
  "reachable (update keys_none (Game_init ground_level 0)) \<and>
   0 \<le> tile_count (player (update keys_none (Game_init ground_level 0))) \<and>
   tile_count (player (update keys_none (Game_init ground_level 0))) \<le> 20 \<and>
   tile_count ((Player_init 100 500)\<lparr>tile_count := 20\<rparr>) = 20 \<and>
   tile_count (add_tile ((Player_init 100 500)\<lparr>tile_count := 20\<rparr>)) \<le> 20 \<and>
   tile_count (Player_init 100 500) = 0 \<and>
   0 \<le> tile_count (snd (remove_tile (Player_init 100 500))) \<and>
   tile_count (player (before_gap keys_right last_jump_game)) = 0 \<and>
   platforms (level (update keys_right last_jump_game)) = platforms (level last_jump_game)"
proof -
  have r: "reachable (update keys_none (Game_init ground_level 0))"
    by (intro reach_update reach_init)
  have a: "tile_count ((Player_init 100 500)\<lparr>tile_count := 20\<rparr>) = 20" by simp
  have b: "tile_count (Player_init 100 500) = 0" by (simp add: Player_init_def)
  have h: "before_gap keys_right last_jump_game =
      (playing_game ground_level (airborne 4685 390.4 5 2.6))\<lparr>timer := 1\<rparr>"
    by (simp add: last_jump_game_def before_gap_on_ground_level last_jump_frame)
  have c: "tile_count (player (before_gap keys_right last_jump_game)) = 0"
    unfolding h by (simp add: playing_game_def Game_init_def airborne_def Player_init_def)
  from tile_count_stays_in_bounds [of "update keys_none (Game_init ground_level 0)"
      "(Player_init 100 500)\<lparr>tile_count := 20\<rparr>" "Player_init 100 500" keys_right last_jump_game]
    r a b c
  show ?thesis by simp
qed

subsection \<open>A tile collected at the cap\<close>

lemma Level_update_keeps_collected:
  "i < length ts \<Longrightarrow> tile_collected (map Tile_update ts ! i) = tile_collected (ts ! i)"
  by (simp add: Tile_update_def Let_def)

lemma update_keeps_collected:
  assumes "i < length (tiles (level g))" "tile_collected (tiles (level g) ! i)"
  shows "length (tiles (level (update keys g))) = length (tiles (level g)) \<and>
         tile_collected (tiles (level (update keys g)) ! i)"
proof (cases "state g")
  case STATE_PLAYING
  have "tile_collected (map Tile_update (tiles (level g)) ! i)"
    using assms Level_update_keeps_collected by simp
  then have "tile_collected (snd (collect_first (player_get_rect (player (physics_step keys g)))
      (map Tile_update (tiles (level g)))) ! i)"
    using assms(1) by (intro collect_first_keeps_collected) simp_all
  with STATE_PLAYING show ?thesis by (simp add: update_def before_gap_def)
qed (use assms in \<open>simp_all add: update_def Let_def\<close>)

lemma fold_update_keeps_collected:
  "i < length (tiles (level g)) \<Longrightarrow> tile_collected (tiles (level g) ! i) \<Longrightarrow>
   length (tiles (level (fold update ks g))) = length (tiles (level g)) \<and>
   tile_collected (tiles (level (fold update ks g)) ! i)"
proof (induction ks arbitrary: g)
  case Nil
  then show ?case by simp
next
  case (Cons k ks)
  from update_keeps_collected[OF Cons.prems, of k]
  have 1: "i < length (tiles (level (update k g)))" "tile_collected (tiles (level (update k g)) ! i)"
    and 2: "length (tiles (level (update k g))) = length (tiles (level g))"
    using Cons.prems by simp_all
  from Cons.IH[OF 1] 2 show ?case by simp
qed

text \<open>
  C10. Let the player hold 20 tiles when a frame reaches tile collection (game.py, lines
  186-191), and let tile \<open>i\<close> be the first uncollected tile, in list order, that the
  player's box overlaps. Then the collection step marks tile \<open>i\<close> collected and changes
  no other tile, adds 10 to the score, and leaves the tile count at 20; and the tile stays
  collected after any sequence of later frames.
\<close>

theorem tile_at_cap_is_consumed:
  assumes "tile_count (player g) = 20"
    and "i < length (tiles (level g))"
    and "\<not> tile_collected (tiles (level g) ! i)"
    and "colliderect (player_get_rect (player g)) (tile_get_rect (tiles (level g) ! i))"
    and "\<forall>j<i. tile_collected (tiles (level g) ! j) \<or>
                \<not> colliderect (player_get_rect (player g)) (tile_get_rect (tiles (level g) ! j))"
  shows "tiles (level (collect_step g)) = (tiles (level g))[i := (tiles (level g) ! i)\<lparr>tile_collected := True\<rparr>] \<and>
         score (collect_step g) = score g + 10 \<and>
         tile_count (player (collect_step g)) = 20 \<and>
         (\<forall>ks. tile_collected (tiles (level (fold update ks (collect_step g))) ! i))"
proof -
  let ?ts = "tiles (level g)"
  have cf: "collect_first (player_get_rect (player g)) ?ts =
      (Some ((?ts ! i)\<lparr>tile_collected := True\<rparr>), ?ts[i := (?ts ! i)\<lparr>tile_collected := True\<rparr>])"
    using assms(2-5) by (rule collect_first_at)
  have t: "tiles (level (collect_step g)) = ?ts[i := (?ts ! i)\<lparr>tile_collected := True\<rparr>]"
    using cf by simp
  have s: "score (collect_step g) = score g + 10 \<and> tile_count (player (collect_step g)) = 20"
    using cf assms(1) by (simp add: collect_step_def check_tile_collection_def play_sound_def tile_count_add_tile)
  have "i < length (tiles (level (collect_step g)))" "tile_collected (tiles (level (collect_step g)) ! i)"
    using t assms(2) by simp_all
  then have "\<forall>ks. tile_collected (tiles (level (fold update ks (collect_step g))) ! i)"
    using fold_update_keeps_collected by blast
  with t s show ?thesis by simp
qed

text \<open>Evaluated on \<open>full_stack_game\<close>, whose only tile is under the player, and two later frames.\<close>

theorem tile_at_cap_is_consumed_witness:
  "tile_count (player full_stack_game) = 20 \<and>
   \<not> tile_collected (tiles (level full_stack_game) ! 0) \<and>
   colliderect (player_get_rect (player full_stack_game)) (tile_get_rect (tiles (level full_stack_game) ! 0)) \<and>
   tiles (level (collect_step full_stack_game)) = [hover_tile\<lparr>tile_collected := True\<rparr>] \<and>
   score (collect_step full_stack_game) = score full_stack_game + 10 \<and>
   tile_count (player (collect_step full_stack_game)) = 20 \<and>
   tile_collected (tiles (level (fold update [keys_right, keys_none] (collect_step full_stack_game))) ! 0)"
proof -
  let ?g = "full_stack_game"
  have a: "tile_count (player ?g) = 20" by (simp add: game_example_defs Player_init_def)
  have b: "0 < length (tiles (level ?g))" by (simp add: game_example_defs ground_level_def)
  have ts: "tiles (level ?g) = [hover_tile]"
    by (simp add: full_stack_game_def playing_game_def Game_init_def ground_level_def)
  have c: "\<not> tile_collected (tiles (level ?g) ! 0)" by (simp add: ts hover_tile_def)
  have d: "colliderect (player_get_rect (player ?g)) (tile_get_rect (tiles (level ?g) ! 0))"
    by (simp add: ts) (simp add: game_example_defs example_defs rect_defs const_defs)
  have e: "\<forall>j<0. tile_collected (tiles (level ?g) ! j) \<or>
      \<not> colliderect (player_get_rect (player ?g)) (tile_get_rect (tiles (level ?g) ! j))"
    by simp
  note m = tile_at_cap_is_consumed [OF a b c d e]
  from m have m1: "tiles (level (collect_step ?g)) = [hover_tile\<lparr>tile_collected := True\<rparr>]"
    by (simp add: ts)
  from m have m2: "score (collect_step ?g) = score ?g + 10"
    and m3: "tile_count (player (collect_step ?g)) = 20" by simp_all
  from m have "\<forall>ks. tile_collected (tiles (level (fold update ks (collect_step ?g))) ! 0)" by simp
  then have m4: "tile_collected (tiles (level (fold update [keys_right, keys_none] (collect_step ?g))) ! 0)"
    by (rule spec)
  from a c d m1 m2 m3 m4 show ?thesis by (intro conjI)
qed

subsection \<open>Bridges\<close>

text \<open>
  C3, as stated, fails. \<open>falling_game\<close> has an actor with two tiles falling at
  \<open>vel_y = 5\<close> with nothing under it (the probe of \<open>check_gap\<close> meets no platform: with a
  horizontal velocity the gap would be declared). With no direction key held,
  \<open>Player.update\<close> sets \<open>vel_x = 0\<close>, \<open>check_gap\<close> asks for \<open>\<bar>vel_x\<bar> > 0.5\<close>, and the
  frame builds no bridge and keeps both tiles. With the right key held the bridge is
  built, as \<open>Platform(x - 20, y + 20, 40, 10)\<close>: for the actor at (1004.75, 105.8) it spans
  125.8 to 135.8 vertically, so it is centred on x but lies 20 to 30 below y.
\<close>

theorem gap_bridge_needs_direction_key:
  "state falling_game = STATE_PLAYING \<and> vel_y (player falling_game) = 5 \<and>
   \<not> on_ground (player falling_game) \<and> tile_count (player falling_game) = 2 \<and>
   check_gap (level falling_game) ((player falling_game)\<lparr>vel_x := 1\<rparr>) \<and>
   platforms (level (update keys_none falling_game)) = platforms (level falling_game) \<and>
   tile_count (player (update keys_none falling_game)) = 2 \<and>
   platforms (level (update keys_right falling_game)) =
     [ground, \<lparr>plat_x = 984.75, plat_y = 125.8, plat_width = 40, plat_height = 10\<rparr>] \<and>
   player_x (player (update keys_right falling_game)) = 1004.75 \<and>
   player_y (player (update keys_right falling_game)) = 105.8"
proof -
  have s: "state falling_game = STATE_PLAYING \<and> vel_y (player falling_game) = 5 \<and>
      \<not> on_ground (player falling_game) \<and> tile_count (player falling_game) = 2"
    by (simp add: game_example_defs example_defs)
  have g: "check_gap (level falling_game) ((player falling_game)\<lparr>vel_x := 1\<rparr>)"
    by (simp add: game_example_defs check_gap_def example_defs rect_defs const_defs)
  let ?hi = "before_gap keys_none falling_game"
  have hi: "?hi = (playing_game ground_level ((airborne 1000 105.8 0 5.8)\<lparr>tile_count := 2\<rparr>))\<lparr>timer := 1\<rparr>"
    by (simp add: falling_game_def before_gap_on_ground_level falling_idle_frame)
  have "\<not> check_gap (level ?hi) (player ?hi)"
    unfolding hi by (simp add: playing_game_def Game_init_def check_gap_def airborne_def Player_init_def)
  then have qi: "gap_step ?hi = ?hi" by (simp add: gap_step_quiet)
  have i1: "platforms (level (update keys_none falling_game)) = platforms (level ?hi) \<and>
      tile_count (player (update keys_none falling_game)) = tile_count (player ?hi)"
    using s qi by (simp add: update_def)
  have i2: "tile_count (player ?hi) = 2"
    unfolding hi by (simp add: playing_game_def Game_init_def airborne_def Player_init_def)
  have i: "platforms (level (update keys_none falling_game)) = platforms (level falling_game) \<and>
      tile_count (player (update keys_none falling_game)) = 2"
    using i1 i2 by simp
  let ?hr = "before_gap keys_right falling_game"
  have hr: "?hr = (playing_game ground_level ((airborne 1004.75 105.8 4.75 5.8)\<lparr>tile_count := 2\<rparr>))\<lparr>timer := 1\<rparr>"
    by (simp add: falling_game_def before_gap_on_ground_level falling_right_frame)
  have r1: "vel_y (player ?hr) > 2" "tile_count (player ?hr) > 0"
    "player_x (player ?hr) = 1004.75" "player_y (player ?hr) = 105.8"
    "platforms (level ?hr) = [ground]"
    unfolding hr by (simp_all add: playing_game_def Game_init_def airborne_def Player_init_def ground_level_def)
  have r2: "check_gap (level ?hr) (player ?hr)"
    unfolding hr by (simp add: playing_game_def Game_init_def check_gap_def example_defs rect_defs const_defs)
  from gap_step_bridge[OF r1(1) r2 r1(2)] r1 s
  have r: "platforms (level (update keys_right falling_game)) =
       [ground, \<lparr>plat_x = 984.75, plat_y = 125.8, plat_width = 40, plat_height = 10\<rparr>] \<and>
     player_x (player (update keys_right falling_game)) = 1004.75 \<and>
     player_y (player (update keys_right falling_game)) = 105.8"
    by (simp add: update_def bridge_at_def)
  from s g i r show ?thesis by simp
qed

text \<open>
  C3, amended. In a PLAYING frame that reaches the gap check (game.py, line 193) with a
  vertical velocity above 2, with \<open>check_gap\<close> true (so a direction key is held:
  \<open>\<bar>vel_x\<bar> > 0.5\<close>) and with a tile count of 2, \<open>update\<close> appends exactly one platform,
  \<open>bridge_at x y\<close> = \<open>Platform(x - 20, y + 20, 40, 10)\<close> for the position (x, y) of the
  actor after the frame, and the tile count becomes 1.
\<close>

theorem gap_with_tiles_builds_one_bridge:
  assumes "state g = STATE_PLAYING"
    and "vel_y (player (before_gap keys g)) > 2"
    and "check_gap (level (before_gap keys g)) (player (before_gap keys g))"
    and "tile_count (player (before_gap keys g)) = 2"
  shows "platforms (level (update keys g)) =
           platforms (level g) @ [bridge_at (player_x (player (update keys g))) (player_y (player (update keys g)))] \<and>
         tile_count (player (update keys g)) = 1"
proof -
  have "tile_count (player (before_gap keys g)) > 0" using assms(4) by simp
  from gap_step_bridge[OF assms(2,3) this] assms(1,4) show ?thesis
    by (simp add: update_def)
qed

text \<open>Evaluated on \<open>falling_game\<close> with the right key held.\<close>

theorem gap_with_tiles_builds_one_bridge_witness:
  "state falling_game = STATE_PLAYING \<and>
   vel_y (player (before_gap keys_right falling_game)) > 2 \<and>
   check_gap (level (before_gap keys_right falling_game)) (player (before_gap keys_right falling_game)) \<and>
   tile_count (player (before_gap keys_right falling_game)) = 2 \<and>
   platforms (level (update keys_right falling_game)) =
     platforms (level falling_game) @
       [bridge_at (player_x (player (update keys_right falling_game)))
                  (player_y (player (update keys_right falling_game)))] \<and>
   tile_count (player (update keys_right falling_game)) = 1"
proof -
  let ?hr = "before_gap keys_right falling_game"
  have hr: "?hr = (playing_game ground_level ((airborne 1004.75 105.8 4.75 5.8)\<lparr>tile_count := 2\<rparr>))\<lparr>timer := 1\<rparr>"
    by (simp add: falling_game_def before_gap_on_ground_level falling_right_frame)
  have a: "state falling_game = STATE_PLAYING" by (simp add: game_example_defs)
  have b: "vel_y (player ?hr) > 2"
    unfolding hr by (simp add: playing_game_def Game_init_def airborne_def Player_init_def)
  have c: "check_gap (level ?hr) (player ?hr)"
    unfolding hr by (simp add: playing_game_def Game_init_def check_gap_def example_defs rect_defs const_defs)
  have d: "tile_count (player ?hr) = 2"
    unfolding hr by (simp add: playing_game_def Game_init_def airborne_def Player_init_def)
  from a b c d gap_with_tiles_builds_one_bridge [OF a b c d] show ?thesis by simp
qed

subsection \<open>The finish line\<close>

lemma py_int_numeral [simp]: "py_int (numeral n) = numeral n"
  by (simp add: py_int_def)

lemma py_int_less: "py_int r < n \<Longrightarrow> 0 \<le> n \<Longrightarrow> r < of_int n"
  by (auto simp: py_int_def floor_less_iff split: if_splits)

text \<open>
  The generated finish line ends at the ground (y = 550), so an actor that overlaps it
  has its centre above 580 and has not fallen off the screen (y > 800).
\<close>

lemma finish_overlap_on_screen:
  assumes "finish_line lvl = Some generated_finish_line" "check_finish_line lvl pl"
  shows "player_y pl < 580"
proof -
  have "py_int (player_y pl - 30) < 550"
    using assms by (simp add: check_finish_line_def colliderect_def finish_get_rect_def player_get_rect_def
        mk_Rect_def generated_finish_line_def const_defs min_def max_def split: if_splits)
  then have "player_y pl - 30 < 550" using py_int_less[of "player_y pl - 30" 550] by simp
  then show ?thesis by simp
qed

lemma fold_update_complete: "state g = STATE_LEVEL_COMPLETE \<Longrightarrow> fold update ks g = g"
  by (induction ks) (simp_all add: update_def)

lemma score_before_finish:
  "score (before_finish keys g) = score g \<or> score (before_finish keys g) = score g + 10"
  by (simp add: before_finish_def before_gap_def collect_step_cases play_sound_def split: option.splits)

text \<open>
  The finish-line check of line 216 does not look at the state: whatever the gap check has
  set, an overlap makes the frame end in LEVEL_COMPLETE with the bonus added.
\<close>

lemma update_at_finish:
  assumes "state g = STATE_PLAYING"
    and "finish_line (level g) = Some generated_finish_line"
    and "check_finish_line (level (before_finish keys g)) (player (before_finish keys g))"
  shows "update keys g = finish_step (before_finish keys g) \<and>
         state (finish_step (before_finish keys g)) = STATE_LEVEL_COMPLETE \<and>
         score (finish_step (before_finish keys g)) =
           score (before_finish keys g) +
             (max 0 (10000 - (timer g + 1) div 60 * 10) + tile_count (player (before_finish keys g)) * 50)"
proof -
  let ?h = "before_finish keys g"
  have "player_y (player ?h) < 580"
    using assms(2,3) by (intro finish_overlap_on_screen[of "level ?h"]) simp_all
  then have on: "\<not> player_y (player (finish_step ?h)) > of_int (SCREEN_HEIGHT + 200)"
    by (simp add: const_defs)
  have u: "update keys g = finish_step ?h"
    using assms(1) on by (simp add: update_def update_playing_def fell_off_step_def)
  have st: "state (finish_step ?h) = STATE_LEVEL_COMPLETE"
    using assms(3) by (simp add: finish_step_def play_sound_def Let_def)
  have sc: "score (finish_step ?h) =
      score ?h + (max 0 (10000 - (timer g + 1) div 60 * 10) + tile_count (player ?h) * 50)"
    using assms(3) by (simp add: finish_step_def play_sound_def Let_def time_bonus_def tile_bonus_def)
  from u st sc show ?thesis by simp
qed

text \<open>
  C7. Let a PLAYING frame, on a level with the finish line that level generation
  installs, reach the finish-line check (game.py, line 215) with the actor's box
  overlapping the finish line's box. Then the frame ends in LEVEL_COMPLETE; the score is
  the score at the check (the score before the frame, plus 10 if a tile was collected in
  this frame) plus the time bonus \<open>max 0 (10000 - (timer div 60) * 10)\<close> and 50 per tile
  held; and every later sequence of frames leaves the whole game state, the score
  included, unchanged.
\<close>

theorem finish_line_completes_level_once:
  assumes "state g = STATE_PLAYING"
    and "finish_line (level g) = Some generated_finish_line"
    and "check_finish_line (level (before_finish keys g)) (player (before_finish keys g))"
  shows "state (update keys g) = STATE_LEVEL_COMPLETE \<and>
         score (update keys g) = score (before_finish keys g) +
            (max 0 (10000 - (timer g + 1) div 60 * 10) + tile_count (player (update keys g)) * 50) \<and>
         (score (before_finish keys g) = score g \<or> score (before_finish keys g) = score g + 10) \<and>
         (\<forall>ks. fold update ks (update keys g) = update keys g)"
proof -
  let ?h = "before_finish keys g"
  from update_at_finish[OF assms]
  have u: "update keys g = finish_step ?h"
    and st: "state (finish_step ?h) = STATE_LEVEL_COMPLETE"
    and sc: "score (finish_step ?h) =
      score ?h + (max 0 (10000 - (timer g + 1) div 60 * 10) + tile_count (player ?h) * 50)"
    by simp_all
  show ?thesis using u st sc score_before_finish[of keys g] fold_update_complete[of "finish_step ?h"]
    by simp
qed

text \<open>
  Evaluated on \<open>arriving_game\<close> with the right key held: the step to x = 4685 reaches the
  finish line, the score goes from 0 to 10000, and two more frames change nothing.
\<close>

theorem finish_line_completes_level_once_witness:
  "state arriving_game = STATE_PLAYING \<and>
   finish_line (level arriving_game) = Some generated_finish_line \<and>
   check_finish_line (level (before_finish keys_right arriving_game))
                     (player (before_finish keys_right arriving_game)) \<and>
   state (update keys_right arriving_game) = STATE_LEVEL_COMPLETE \<and>
   score (update keys_right arriving_game) = 10000 \<and>
   fold update [keys_none, keys_right] (update keys_right arriving_game) = update keys_right arriving_game"
proof -
  let ?g = "arriving_game"
  let ?h = "before_gap keys_right ?g"
  have s: "state ?g = STATE_PLAYING" by (simp add: game_example_defs)
  have f: "finish_line (level ?g) = Some generated_finish_line"
    by (simp add: game_example_defs ground_level_def)
  have t: "timer ?g = 0" by (simp add: game_example_defs)
  have h: "?h = (playing_game ground_level ((Player_init 4685 520)\<lparr>vel_x := 5\<rparr>))\<lparr>timer := 1\<rparr>"
    by (simp add: arriving_game_def before_gap_on_ground_level arriving_frame)
  have v: "\<not> vel_y (player ?h) > 2" "tile_count (player ?h) = 0" "score ?h = 0"
    "player_x (player ?h) = 4685" "player_y (player ?h) = 520"
    unfolding h by (simp_all add: playing_game_def Game_init_def Player_init_def)
  have q: "gap_step ?h = ?h" using v(1) by (simp add: gap_step_quiet)
  have "check_finish_line (level (before_finish keys_right ?g)) (player (before_finish keys_right ?g)) =
        check_finish_line ground_level (Player_init 4685 520)"
    using f v by (intro check_finish_line_cong) (simp_all add: ground_level_def Player_init_def)
  moreover have "check_finish_line ground_level (Player_init 4685 520)"
    by (simp add: check_finish_line_def example_defs rect_defs const_defs)
  ultimately have cf: "check_finish_line (level (before_finish keys_right ?g)) (player (before_finish keys_right ?g))"
    by simp
  have sc: "score (before_finish keys_right ?g) = 0" "tile_count (player (update keys_right ?g)) = 0"
    using q v s by (simp_all add: before_finish_def update_def)
  note m = finish_line_completes_level_once [OF s f cf]
  from m have m1: "state (update keys_right ?g) = STATE_LEVEL_COMPLETE" by (rule conjunct1)
  from m have "score (update keys_right ?g) =
      score (before_finish keys_right ?g) +
      (max 0 (10000 - (timer ?g + 1) div 60 * 10) + tile_count (player (update keys_right ?g)) * 50)"
    by simp
  with sc t have m2: "score (update keys_right ?g) = 10000" by simp
  from m have "\<forall>ks. fold update ks (update keys_right ?g) = update keys_right ?g" by simp
  then have m3: "fold update [keys_none, keys_right] (update keys_right ?g) = update keys_right ?g"
    by (rule spec)
  from s f cf m1 m2 m3 show ?thesis by (intro conjI)
qed

subsection \<open>A gap without tiles\<close>

text \<open>
  C4 does not hold of the code. \<open>last_jump_game\<close> is a PLAYING game whose actor, without
  tiles and not touching the finish line, is 21 frames into a jump from the ground with
  the right key held. In the next frame the gap check fires (\<open>vel_y = 2.6 > 2\<close>, the
  probe ends 60 above the ground), the tile count is 0, and lines 199-203 set GAME_OVER
  and \<open>vel_y = 15\<close>. The same frame moves the actor onto the finish line, and the
  finish-line check of lines 216-223, which does not look at the state, replaces GAME_OVER
  by LEVEL_COMPLETE and adds the bonus: the frame ends in LEVEL_COMPLETE with a score of
  10000, not in GAME_OVER.
\<close>

theorem finish_line_overrides_gap_game_over:
  "state last_jump_game = STATE_PLAYING \<and>
   \<not> check_finish_line (level last_jump_game) (player last_jump_game) \<and>
   vel_y (player (before_gap keys_right last_jump_game)) > 2 \<and>
   check_gap (level (before_gap keys_right last_jump_game)) (player (before_gap keys_right last_jump_game)) \<and>
   tile_count (player (before_gap keys_right last_jump_game)) = 0 \<and>
   state (gap_step (before_gap keys_right last_jump_game)) = STATE_GAME_OVER \<and>
   state (update keys_right last_jump_game) = STATE_LEVEL_COMPLETE \<and>
   score (update keys_right last_jump_game) = 10000 \<and>
   vel_y (player (update keys_right last_jump_game)) = 15"
proof -
  let ?g = "last_jump_game"
  let ?h = "before_gap keys_right ?g"
  have s: "state ?g = STATE_PLAYING" by (simp add: game_example_defs)
  have f: "finish_line (level ?g) = Some generated_finish_line"
    by (simp add: game_example_defs ground_level_def)
  have t: "timer ?g = 0" by (simp add: game_example_defs)
  have nf: "\<not> check_finish_line (level ?g) (player ?g)"
    by (simp add: game_example_defs check_finish_line_def example_defs rect_defs const_defs)
  have h: "?h = (playing_game ground_level (airborne 4685 390.4 5 2.6))\<lparr>timer := 1\<rparr>"
    by (simp add: last_jump_game_def before_gap_on_ground_level last_jump_frame)
  have v: "vel_y (player ?h) > 2" "tile_count (player ?h) = 0"
    "player_x (player ?h) = 4685" "player_y (player ?h) = 390.4" "score ?h = 0"
    unfolding h by (simp_all add: playing_game_def Game_init_def airborne_def Player_init_def)
  have c: "check_gap (level ?h) (player ?h)"
    unfolding h by (simp add: playing_game_def Game_init_def check_gap_def example_defs rect_defs const_defs)
  note gs = gap_step_fall[OF v(1) c v(2)]
  have "check_finish_line (level (before_finish keys_right ?g)) (player (before_finish keys_right ?g)) =
        check_finish_line ground_level (airborne 4685 390.4 5 2.6)"
    using f v by (intro check_finish_line_cong) (simp_all add: ground_level_def airborne_def Player_init_def)
  moreover have "check_finish_line ground_level (airborne 4685 390.4 5 2.6)"
    by (simp add: check_finish_line_def example_defs rect_defs const_defs)
  ultimately have cf: "check_finish_line (level (before_finish keys_right ?g)) (player (before_finish keys_right ?g))"
    by simp
  from update_at_finish[OF s f cf]
  have u: "state (update keys_right ?g) = STATE_LEVEL_COMPLETE"
    and ue: "update keys_right ?g = finish_step (before_finish keys_right ?g)"
    and us: "score (update keys_right ?g) = score (before_finish keys_right ?g) +
        (max 0 (10000 - (timer ?g + 1) div 60 * 10) + tile_count (player (before_finish keys_right ?g)) * 50)"
    by simp_all
  from ue have "vel_y (player (update keys_right ?g)) = vel_y (player (gap_step ?h))"
    by (simp add: before_finish_def)
  with gs have vy: "vel_y (player (update keys_right ?g)) = 15" by simp
  have tc: "tile_count (player (gap_step ?h)) = 0"
    using gap_step_tile_count[of ?h] v(2) by auto
  have "score (before_finish keys_right ?g) = 0" using v(5) by (simp add: before_finish_def)
  with us t tc have sc: "score (update keys_right ?g) = 10000" by simp
  from s nf v(1,2) c gs u sc vy show ?thesis by simp
qed

end
